theory Spec2Isabelle
  imports Complex_Main
begin

section \<open>Conventions\<close>

text \<open>
  The Python sources compute with IEEE doubles; the development below idealises them as
  real numbers (\<^typ>\<open>real\<close>), so \<open>np.exp\<close>, \<open>np.sqrt\<close> and division are the exact
  functions and rounding, overflow and NaN propagation are outside the model. Where the
  libraries return NaN for an undefined statistic (a sample standard deviation of fewer
  than two values) the model returns \<open>None\<close>. Exceptions are values of type \<open>error\<close> on the
  left of a sum. The temporal detector is the exception to the idealisation: it compares a
  computed z-score with constants, so its double arithmetic is a parameter of the model
  (\<open>float_ops\<close> below).
\<close>

datatype error =
    ZeroDivisionError
  | ValueError string
  | NotFittedError
  | AttributeError

section \<open>risk\_probability\_model.py\<close>

record RiskProbabilityModel =
  failure_weight :: real
  anomaly_weight :: real
  recency_weight :: real
  risk_threshold_critical :: real
  risk_threshold_high :: real
  risk_threshold_medium :: real

text \<open>
  \<open>RiskProbabilityModel.__init__\<close>: the three weights are divided by their sum. Python's
  float division raises \<open>ZeroDivisionError\<close> when the sum is zero. The sum and the
  quotients below are the exact ones. The doubles of the source agree with them up to
  rounding when the weights are non-negative and their sum lies within the range of the
  doubles. They do not for weights of mixed sign whose sum cancels (0.1 + 0.2 - 0.3 is zero
  here and 5.6e-17 in doubles, so the source builds a model where this definition raises),
  nor for a sum beyond the range of the doubles (three weights of 1e308 add up to \<open>inf\<close> and
  every stored weight is 0.0); statements about the constructor that depend on such inputs
  carry the restriction as a hypothesis.
\<close>

definition RiskProbabilityModel_init :: "real \<Rightarrow> real \<Rightarrow> real \<Rightarrow> error + RiskProbabilityModel" where
  "RiskProbabilityModel_init fw aw rw =
     (let total = fw + aw + rw in
      if total = 0 then Inl ZeroDivisionError
      else Inr \<lparr> failure_weight = fw / total,
                 anomaly_weight = aw / total,
                 recency_weight = rw / total,
                 risk_threshold_critical = 0.80,
                 risk_threshold_high = 0.60,
                 risk_threshold_medium = 0.40 \<rparr>)"

record risk_score =
  building_id :: string
  risk_probability :: real
  risk_level :: string
  action :: string
  failure_component :: real
  anomaly_component :: real
  recency_component :: real
  composite_score :: real
  recent_critical_issues :: int
  calculated_at :: string

text \<open>
  \<open>RiskProbabilityModel.calculate_building_risk\<close>. The wall-clock reading
  \<open>datetime.now().isoformat()\<close> is the parameter \<open>now\<close>.
\<close>

definition calculate_building_risk ::
  "RiskProbabilityModel \<Rightarrow> string \<Rightarrow> real \<Rightarrow> real \<Rightarrow> real \<Rightarrow> int \<Rightarrow> string \<Rightarrow> risk_score" where
  "calculate_building_risk self bid failure_probability anomaly_probability
       issue_frequency_score recent_high_severity_issues now =
     (let failure_prob = max 0 (min 1 failure_probability);
          anomaly_prob = max 0 (min 1 anomaly_probability);
          freq_score = max 0 (min 1 issue_frequency_score);
          composite_risk = failure_weight self * failure_prob
                         + anomaly_weight self * anomaly_prob
                         + recency_weight self * freq_score;
          risk_prob = 1 / (1 + exp (- 5 * (composite_risk - 0.5)));
          (level, act) =
            (if risk_prob \<ge> risk_threshold_critical self
               then (''CRITICAL'', ''IMMEDIATE INTERVENTION REQUIRED'')
             else if risk_prob \<ge> risk_threshold_high self
               then (''HIGH'', ''URGENT MAINTENANCE REQUIRED'')
             else if risk_prob \<ge> risk_threshold_medium self
               then (''MEDIUM'', ''SCHEDULE MAINTENANCE'')
             else (''LOW'', ''ROUTINE MAINTENANCE''))
      in \<lparr> building_id = bid,
           risk_probability = risk_prob,
           risk_level = level,
           action = act,
           failure_component = failure_prob,
           anomaly_component = anomaly_prob,
           recency_component = freq_score,
           composite_score = composite_risk,
           recent_critical_issues = recent_high_severity_issues,
           calculated_at = now \<rparr>)"

section \<open>Tables\<close>

text \<open>
  The pandas frames are lists of rows. Of an issue only the columns read by the functions
  below are kept. \<open>created_at\<close> is the parsed timestamp (\<open>pd.to_datetime\<close>), a count of
  nanoseconds since the epoch as in \<open>datetime64[ns]\<close>.
\<close>

record issue =
  issue_building_id :: string
  severity :: int
  created_at :: int

definition ns_per_day :: int where
  "ns_per_day = 86400000000000"

definition ns_per_hour :: int where
  "ns_per_hour = 3600000000000"

text \<open>\<open>.dt.date\<close> and \<open>Timestamp.date()\<close>: the calendar day, as a day number.\<close>

definition date_of :: "int \<Rightarrow> int" where
  "date_of t = t div ns_per_day"

definition issues_of :: "issue list \<Rightarrow> string \<Rightarrow> issue list" where
  "issues_of issues_df bid = filter (\<lambda>i. issue_building_id i = bid) issues_df"

section \<open>numpy and pandas statistics\<close>

definition np_mean :: "real list \<Rightarrow> real" where
  "np_mean xs = sum_list xs / real (length xs)"

text \<open>\<open>np.std\<close>: the population standard deviation (\<open>ddof = 0\<close>).\<close>

definition np_std :: "real list \<Rightarrow> real" where
  "np_std xs = sqrt (sum_list (map (\<lambda>x. (x - np_mean xs)\<^sup>2) xs) / real (length xs))"

text \<open>
  \<open>Series.std\<close> and \<open>Rolling.std\<close>: the sample standard deviation (\<open>ddof = 1\<close>), NaN
  (here \<open>None\<close>) on fewer than two values.
\<close>

definition pd_std :: "real list \<Rightarrow> real option" where
  "pd_std xs =
     (if length xs < 2 then None
      else Some (sqrt (sum_list (map (\<lambda>x. (x - np_mean xs)\<^sup>2) xs) / real (length xs - 1))))"

fun np_diff :: "int list \<Rightarrow> int list" where
  "np_diff (a # b # rest) = (b - a) # np_diff (b # rest)"
| "np_diff _ = []"




section \<open>anomaly\_detection\_model.py\<close>

text \<open>
  The scikit-learn objects are taken by what the module uses of them. A scaler or an
  estimator is either not fitted, and then \<open>transform\<close>, \<open>predict\<close> and \<open>score_samples\<close>
  raise \<open>NotFittedError\<close>, or fitted, and then it acts on each row of the batch by the
  given functions. \<open>transform\<close> rejects a batch of no rows.
\<close>

datatype sk_scaler = ScalerNotFitted | ScalerFitted "real list \<Rightarrow> real list"

datatype sk_estimator = NotFitted | Fitted "real list \<Rightarrow> int" "real list \<Rightarrow> real"

definition scaler_transform :: "sk_scaler \<Rightarrow> real list list \<Rightarrow> error + real list list" where
  "scaler_transform sc X =
     (case sc of
        ScalerNotFitted \<Rightarrow> Inl NotFittedError
      | ScalerFitted f \<Rightarrow>
          if X = [] then Inl (ValueError ''Found array with 0 sample(s)'')
          else Inr (map f X))"

record AnomalyDetectionModel =
  algorithm :: string
  contamination :: real
  scaler :: sk_scaler
  model :: "sk_estimator option"
  feature_names :: "string list"

definition AnomalyDetectionModel_init :: "string \<Rightarrow> real \<Rightarrow> error + AnomalyDetectionModel" where
  "AnomalyDetectionModel_init alg contam =
     (if alg = ''isolation_forest'' \<or> alg = ''one_class_svm''
      then Inr \<lparr> algorithm = alg, contamination = contam, scaler = ScalerNotFitted,
                 model = Some NotFitted, feature_names = [] \<rparr>
      else Inl (ValueError (''Unknown algorithm: '' @ alg)))"

definition detect_anomalies ::
  "AnomalyDetectionModel \<Rightarrow> real list list \<Rightarrow> error + (int list \<times> real list \<times> real list)" where
  "detect_anomalies self X =
     (case model self of
        None \<Rightarrow> Inl (ValueError ''Model not trained yet'')
      | Some est \<Rightarrow>
         (case scaler_transform (scaler self) X of
            Inl e \<Rightarrow> Inl e
          | Inr X_scaled \<Rightarrow>
             (case est of
                NotFitted \<Rightarrow> Inl NotFittedError
              | Fitted predict score_samples \<Rightarrow>
                 (let predictions = map predict X_scaled;
                      anomaly_scores = map score_samples X_scaled;
                      min_score = Min (set anomaly_scores);
                      max_score = Max (set anomaly_scores);
                      anomaly_prob =
                        (if max_score - min_score > 0
                         then map (\<lambda>s. 1 - (s - min_score) / (max_score - min_score))
                                anomaly_scores
                         else map (\<lambda>s. 0) anomaly_scores)
                  in Inr (predictions, anomaly_scores, anomaly_prob)))))"

subsection \<open>detect\_spike\_anomalies\<close>







subsection \<open>detect\_temporal\_anomalies\<close>


text \<open>
  \<open>np.diff(arrival_times).astype('timedelta64[h]').astype(float)\<close> on the rows sorted by
  \<open>created_at\<close>: the gaps between consecutive issues, cut down to whole hours.
\<close>

definition inter_arrival_times_of :: "issue list \<Rightarrow> real list" where
  "inter_arrival_times_of building_issues =
     map (\<lambda>d. real_of_int (d div ns_per_hour)) (np_diff (sort (map created_at building_issues)))"







subsection \<open>AnomalyFeatureEngineer\<close>

text \<open>
  A row of \<open>buildings_df\<close>: the identifier, the name and the remaining numeric columns,
  which the feature engineering copies unchanged.
\<close>

record building =
  bld_id :: string
  bld_name :: string
  bld_numeric :: "real list"

text \<open>
  The engineered columns are floats that may be NaN or infinite; \<open>None\<close> stands for such
  a value.
\<close>

record anomaly_features = building +
  issue_frequency_variance :: "real option"
  issue_severity_variance :: "real option"
  inter_arrival_variance :: "real option"
  daily_issue_std :: "real option"
  weekly_issue_coefficient_variation :: "real option"

text \<open>Float division of numpy scalars: a zero divisor gives NaN or an infinity.\<close>

definition float_div :: "real option \<Rightarrow> real \<Rightarrow> real option" where
  "float_div a d = (case a of None \<Rightarrow> None | Some x \<Rightarrow> if d = 0 then None else Some (x / d))"

text \<open>\<open>groupby(key).size()\<close>: one count for each key that occurs, in key order.\<close>

definition group_sizes :: "('k::linorder) list \<Rightarrow> real list" where
  "group_sizes keys = map (\<lambda>k. real (count_list keys k)) (sort (remdups keys))"

text \<open>
  One pass of the loop of \<open>engineer_anomaly_features\<close>. The ISO week number of a timestamp
  (\<open>dt.isocalendar().week\<close>) is the parameter \<open>iso_week\<close>.
\<close>

definition anomaly_features_of :: "(int \<Rightarrow> nat) \<Rightarrow> issue list \<Rightarrow> building \<Rightarrow> anomaly_features" where
  "anomaly_features_of iso_week issues_df b =
     (let building_issues = issues_of issues_df (bld_id b)
      in if length building_issues = 0
         then building.extend b
                (anomaly_features.fields (Some 0) (Some 0) (Some 0) (Some 0) (Some 0))
         else
           (let daily_counts = group_sizes (map (\<lambda>i. date_of (created_at i)) building_issues);
                frequency_variance = float_div (pd_std daily_counts) (np_mean daily_counts + 1);
                severities = map (\<lambda>i. real_of_int (severity i)) building_issues;
                severity_variance = float_div (pd_std severities) (np_mean severities + 1);
                inter_arrival_var =
                  (if length building_issues > 1
                   then (let inter_arrivals = inter_arrival_times_of building_issues
                         in float_div (Some (np_std inter_arrivals)) (np_mean inter_arrivals + 1))
                   else Some 0);
                daily_std = pd_std daily_counts;
                weekly_counts = group_sizes (map (\<lambda>i. iso_week (created_at i)) building_issues);
                weekly_cv =
                  (if length weekly_counts > 1
                   then float_div (pd_std weekly_counts) (np_mean weekly_counts + 1)
                   else Some 0)
            in building.extend b
                 (anomaly_features.fields frequency_variance severity_variance
                    inter_arrival_var daily_std weekly_cv)))"

definition engineer_anomaly_features ::
  "(int \<Rightarrow> nat) \<Rightarrow> issue list \<Rightarrow> building list \<Rightarrow> anomaly_features list" where
  "engineer_anomaly_features iso_week issues_df buildings_df =
     map (anomaly_features_of iso_week issues_df) buildings_df"

section \<open>failure\_prediction\_model.py\<close>

record FailurePredictionModel =
  model_type :: string
  classifier :: "sk_estimator option"
  fp_scaler :: sk_scaler
  fp_feature_names :: "string list"

text \<open>
  \<open>__init__\<close> with \<open>_initialize_model\<close>: a fresh classifier of the chosen family and a
  fresh scaler, neither fitted. For a fitted classifier the second function of \<open>Fitted\<close> is
  \<open>predict_proba(X)[:, 1]\<close> on a row.
\<close>

definition FailurePredictionModel_init :: "string \<Rightarrow> error + FailurePredictionModel" where
  "FailurePredictionModel_init mt =
     (if mt = ''xgboost'' \<or> mt = ''random_forest'' \<or> mt = ''gradient_boosting''
      then Inr \<lparr> model_type = mt, classifier = Some NotFitted, fp_scaler = ScalerNotFitted,
                 fp_feature_names = [] \<rparr>
      else Inl (ValueError (''Unknown model type: '' @ mt)))"

definition predict_failure_risk ::
  "FailurePredictionModel \<Rightarrow> real list list \<Rightarrow> error + (int list \<times> real list)" where
  "predict_failure_risk self X =
     (case scaler_transform (fp_scaler self) X of
        Inl e \<Rightarrow> Inl e
      | Inr X_scaled \<Rightarrow>
         (case classifier self of
            None \<Rightarrow> Inl AttributeError
          | Some NotFitted \<Rightarrow> Inl NotFittedError
          | Some (Fitted predict predict_proba) \<Rightarrow>
              Inr (map predict X_scaled, map predict_proba X_scaled)))"

section \<open>api\_integration.py\<close>

subsection \<open>PredictionAPI.get\_anomalies\<close>

record PredictionAPI =
  anomaly_if :: "AnomalyDetectionModel option"
  anomaly_svm :: "AnomalyDetectionModel option"
  risk_model :: "RiskProbabilityModel option"

record anomaly_entry =
  an_building_id :: string
  building_name :: string
  anomaly_probability :: real
  anomaly_severity :: string
  if_probability :: real
  svm_probability :: real

text \<open>
  An error response: the guard on the missing models, or an exception caught by the
  \<open>except\<close> clause and turned into a message.
\<close>

datatype api_error = ModelsNotTrained | Caught error

definition fillna0 :: "real option \<Rightarrow> real" where
  "fillna0 v = (case v of None \<Rightarrow> 0 | Some x \<Rightarrow> x)"

text \<open>
  The numeric columns whose names contain neither \<open>id\<close> nor \<open>name\<close>, after
  \<open>fillna(0).replace([inf, -inf], 0)\<close>.
\<close>

definition numeric_row :: "anomaly_features \<Rightarrow> real list" where
  "numeric_row f =
     bld_numeric f @ map fillna0
       [issue_frequency_variance f, issue_severity_variance f, inter_arrival_variance f,
        daily_issue_std f, weekly_issue_coefficient_variation f]"

text \<open>\<open>(if_probs + svm_probs) / 2\<close> on two arrays of one length.\<close>

definition ensemble_probs :: "real list \<Rightarrow> real list \<Rightarrow> real list" where
  "ensemble_probs if_probs svm_probs = map (\<lambda>(a, b). (a + b) / 2) (zip if_probs svm_probs)"

fun anomalies_loop :: "(anomaly_features \<times> real \<times> real \<times> real) list \<Rightarrow> anomaly_entry list" where
  "anomalies_loop [] = []"
| "anomalies_loop ((f, anomaly_prob, if_prob, svm_prob) # rest) =
     (if anomaly_prob > 0.4
      then \<lparr> an_building_id = bld_id f,
             building_name = bld_name f,
             anomaly_probability = anomaly_prob,
             anomaly_severity =
               (if anomaly_prob \<ge> 0.8 then ''CRITICAL''
                else if anomaly_prob \<ge> 0.6 then ''HIGH'' else ''MEDIUM''),
             if_probability = if_prob,
             svm_probability = svm_prob \<rparr> # anomalies_loop rest
      else anomalies_loop rest)"

text \<open>\<open>sorted(anomalies, key=..., reverse=True)\<close>: stable, highest probability first.\<close>

definition sorted_desc :: "anomaly_entry list \<Rightarrow> anomaly_entry list" where
  "sorted_desc anomalies = rev (sort_key anomaly_probability (rev anomalies))"

definition get_anomalies ::
  "PredictionAPI \<Rightarrow> (int \<Rightarrow> nat) \<Rightarrow> issue list \<Rightarrow> building list \<Rightarrow> api_error + anomaly_entry list" where
  "get_anomalies self iso_week issues_df buildings_df =
     (case anomaly_if self of
        None \<Rightarrow> Inl ModelsNotTrained
      | Some ifm \<Rightarrow>
         (let features_df = engineer_anomaly_features iso_week issues_df buildings_df;
              X = map numeric_row features_df
          in case detect_anomalies ifm X of
               Inl e \<Rightarrow> Inl (Caught e)
             | Inr (if_preds, if_scores, if_probs) \<Rightarrow>
                (case anomaly_svm self of
                   None \<Rightarrow> Inl (Caught AttributeError)
                 | Some svm \<Rightarrow>
                    (case detect_anomalies svm X of
                       Inl e \<Rightarrow> Inl (Caught e)
                     | Inr (svm_preds, svm_scores, svm_probs) \<Rightarrow>
                        Inr (sorted_desc (anomalies_loop
                               (zip features_df
                                  (zip (ensemble_probs if_probs svm_probs)
                                     (zip if_probs svm_probs)))))))))"

subsection \<open>The frequency score of get\_risk\_scores\<close>

definition recent_critical_of :: "issue list \<Rightarrow> nat" where
  "recent_critical_of building_issues = length (filter (\<lambda>i. severity i \<ge> 4) building_issues)"

definition freq_score_of :: "issue list \<Rightarrow> real" where
  "freq_score_of building_issues =
     (let recent_critical = recent_critical_of building_issues;
          num_issues = length building_issues;
          freq_score =
            (if num_issues = 0 then 0
             else (let max_expected_issues = 100
                   in min 1 (sqrt (real num_issues) / sqrt max_expected_issues)))
      in if num_issues > 0
         then (let critical_ratio = real recent_critical / real num_issues;
                   critical_boost = min 0.2 (critical_ratio * 0.4)
               in min 1 (freq_score + critical_boost))
         else freq_score)"

text \<open>
  One pass of the loop of \<open>get_risk_scores\<close>; the two dictionaries hold the failure and
  anomaly probabilities of the buildings that have one.
\<close>

definition risk_score_of_building ::
  "RiskProbabilityModel \<Rightarrow> (string \<rightharpoonup> real) \<Rightarrow> (string \<rightharpoonup> real) \<Rightarrow> issue list \<Rightarrow> string
     \<Rightarrow> string \<Rightarrow> risk_score" where
  "risk_score_of_building rm failure_map anomaly_map issues_df bid now =
     (let building_issues = issues_of issues_df bid
      in calculate_building_risk rm bid
           (case failure_map bid of None \<Rightarrow> 0 | Some p \<Rightarrow> p)
           (case anomaly_map bid of None \<Rightarrow> 0 | Some p \<Rightarrow> p)
           (freq_score_of building_issues)
           (int (recent_critical_of building_issues)) now)"

section \<open>Example data\<close>

text \<open>Concrete rows and fitted detectors on which the theorems below are instantiated.\<close>

abbreviation ex_issue :: "string \<Rightarrow> int \<Rightarrow> int \<Rightarrow> issue" where
  "ex_issue b s t \<equiv> \<lparr> issue_building_id = b, severity = s, created_at = t \<rparr>"

abbreviation example_detector :: "(real list \<Rightarrow> real) \<Rightarrow> AnomalyDetectionModel" where
  "example_detector score \<equiv>
     \<lparr> algorithm = ''isolation_forest'', contamination = 0.1, scaler = ScalerFitted (\<lambda>r. r),
       model = Some (Fitted (\<lambda>r. 1) score), feature_names = [] \<rparr>"

abbreviation example_api :: PredictionAPI where
  "example_api \<equiv> \<lparr> anomaly_if = Some (example_detector hd),
                     anomaly_svm = Some (example_detector (\<lambda>r. hd (tl r))), risk_model = None \<rparr>"

abbreviation example_buildings :: "building list" where
  "example_buildings \<equiv>
     [\<lparr> bld_id = ''b0'', bld_name = ''A'', bld_numeric = [0, 0] \<rparr>,
      \<lparr> bld_id = ''b1'', bld_name = ''B'', bld_numeric = [1 / 10, 7 / 10] \<rparr>,
      \<lparr> bld_id = ''b2'', bld_name = ''C'', bld_numeric = [1, 1] \<rparr>]"

abbreviation example_entry ::
  "string \<Rightarrow> string \<Rightarrow> real \<Rightarrow> string \<Rightarrow> real \<Rightarrow> real \<Rightarrow> anomaly_entry" where
  "example_entry b n p s a c \<equiv>
     \<lparr> an_building_id = b, building_name = n, anomaly_probability = p, anomaly_severity = s,
       if_probability = a, svm_probability = c \<rparr>"

abbreviation example_issues :: "issue list" where
  "example_issues \<equiv>
     [ex_issue ''b1'' 1 0,
      ex_issue ''b1'' 1 86400000000000,
      ex_issue ''b0'' 5 90000000000000,
      ex_issue ''b1'' 2 172800000000000,
      ex_issue ''b1'' 3 259200000000000,
      ex_issue ''b1'' 3 262800000000000]"

abbreviation example_building :: building where
  "example_building \<equiv> \<lparr> bld_id = ''b1'', bld_name = ''B'', bld_numeric = [1 / 10, 7 / 10] \<rparr>"






section \<open>Properties of the risk model\<close>

lemma logistic_pos: "0 < 1 / (1 + exp (x::real))"
  by (simp add: add_pos_pos)

lemma logistic_less_one: "1 / (1 + exp (x::real)) < 1"
  by (simp add: add_pos_pos)

lemma init_Inr:
  assumes "RiskProbabilityModel_init fw aw rw = Inr self"
  shows "fw + aw + rw \<noteq> 0"
    and "failure_weight self = fw / (fw + aw + rw)"
    and "anomaly_weight self = aw / (fw + aw + rw)"
    and "recency_weight self = rw / (fw + aw + rw)"
    and "risk_threshold_critical self = 0.80"
    and "risk_threshold_high self = 0.60"
    and "risk_threshold_medium self = 0.40"
  using assms by (auto simp: RiskProbabilityModel_init_def Let_def split: if_splits)

lemma risk_components:
  "failure_component (calculate_building_risk self bid fp ap fs n now) = max 0 (min 1 fp)"
  "anomaly_component (calculate_building_risk self bid fp ap fs n now) = max 0 (min 1 ap)"
  "recency_component (calculate_building_risk self bid fp ap fs n now) = max 0 (min 1 fs)"
  "composite_score (calculate_building_risk self bid fp ap fs n now) =
     failure_weight self * max 0 (min 1 fp) + anomaly_weight self * max 0 (min 1 ap)
       + recency_weight self * max 0 (min 1 fs)"
  "risk_probability (calculate_building_risk self bid fp ap fs n now) =
     1 / (1 + exp (- 5 * (composite_score (calculate_building_risk self bid fp ap fs n now) - 0.5)))"
  unfolding calculate_building_risk_def Let_def case_prod_beta
  by (simp_all only: risk_score.simps)

lemma risk_level_eq:
  "risk_level (calculate_building_risk self bid fp ap fs n now) =
     (let p = risk_probability (calculate_building_risk self bid fp ap fs n now) in
      if risk_threshold_critical self \<le> p then ''CRITICAL''
      else if risk_threshold_high self \<le> p then ''HIGH''
      else if risk_threshold_medium self \<le> p then ''MEDIUM'' else ''LOW'')"
  unfolding calculate_building_risk_def Let_def case_prod_beta
  apply (simp only: risk_score.simps)
  apply (simp only: if_distrib[of fst] if_distrib[of snd] fst_conv snd_conv)
  done

lemma risk_action_eq:
  "action (calculate_building_risk self bid fp ap fs n now) =
     (let p = risk_probability (calculate_building_risk self bid fp ap fs n now) in
      if risk_threshold_critical self \<le> p then ''IMMEDIATE INTERVENTION REQUIRED''
      else if risk_threshold_high self \<le> p then ''URGENT MAINTENANCE REQUIRED''
      else if risk_threshold_medium self \<le> p then ''SCHEDULE MAINTENANCE''
      else ''ROUTINE MAINTENANCE'')"
  unfolding calculate_building_risk_def Let_def case_prod_beta
  apply (simp only: risk_score.simps)
  apply (simp only: if_distrib[of fst] if_distrib[of snd] fst_conv snd_conv)
  done

lemma level_names_distinct:
  "''CRITICAL'' \<noteq> ''HIGH''" "''CRITICAL'' \<noteq> ''MEDIUM''" "''CRITICAL'' \<noteq> ''LOW''"
  "''HIGH'' \<noteq> ''MEDIUM''" "''HIGH'' \<noteq> ''LOW''" "''MEDIUM'' \<noteq> ''LOW''"
  "''HIGH'' \<noteq> ''CRITICAL''" "''MEDIUM'' \<noteq> ''CRITICAL''" "''LOW'' \<noteq> ''CRITICAL''"
  "''MEDIUM'' \<noteq> ''HIGH''" "''LOW'' \<noteq> ''HIGH''" "''LOW'' \<noteq> ''MEDIUM''"
  by simp_all

lemma action_names_distinct:
  "''IMMEDIATE INTERVENTION REQUIRED'' \<noteq> ''URGENT MAINTENANCE REQUIRED''"
  "''IMMEDIATE INTERVENTION REQUIRED'' \<noteq> ''SCHEDULE MAINTENANCE''"
  "''IMMEDIATE INTERVENTION REQUIRED'' \<noteq> ''ROUTINE MAINTENANCE''"
  "''URGENT MAINTENANCE REQUIRED'' \<noteq> ''SCHEDULE MAINTENANCE''"
  "''URGENT MAINTENANCE REQUIRED'' \<noteq> ''ROUTINE MAINTENANCE''"
  "''SCHEDULE MAINTENANCE'' \<noteq> ''ROUTINE MAINTENANCE''"
  "''URGENT MAINTENANCE REQUIRED'' \<noteq> ''IMMEDIATE INTERVENTION REQUIRED''"
  "''SCHEDULE MAINTENANCE'' \<noteq> ''IMMEDIATE INTERVENTION REQUIRED''"
  "''ROUTINE MAINTENANCE'' \<noteq> ''IMMEDIATE INTERVENTION REQUIRED''"
  "''SCHEDULE MAINTENANCE'' \<noteq> ''URGENT MAINTENANCE REQUIRED''"
  "''ROUTINE MAINTENANCE'' \<noteq> ''URGENT MAINTENANCE REQUIRED''"
  "''ROUTINE MAINTENANCE'' \<noteq> ''SCHEDULE MAINTENANCE''"
  by simp_all

lemma level_table:
  fixes p :: real and c h m :: real
  assumes "m \<le> h" "h \<le> c"
  defines "l \<equiv> (if c \<le> p then ''CRITICAL'' else if h \<le> p then ''HIGH''
                  else if m \<le> p then ''MEDIUM'' else ''LOW'')"
  shows "(l = ''CRITICAL'' \<longleftrightarrow> c \<le> p)" "(l = ''HIGH'' \<longleftrightarrow> h \<le> p \<and> p < c)"
        "(l = ''MEDIUM'' \<longleftrightarrow> m \<le> p \<and> p < h)" "(l = ''LOW'' \<longleftrightarrow> p < m)"
  using assms(1,2) unfolding l_def
  by (auto simp only: level_names_distinct not_le if_True if_False split: if_splits)


lemma action_table:
  fixes b1 b2 b3 :: bool
  defines "l \<equiv> (if b1 then ''CRITICAL'' else if b2 then ''HIGH''
                  else if b3 then ''MEDIUM'' else ''LOW'')"
    and "a \<equiv> (if b1 then ''IMMEDIATE INTERVENTION REQUIRED''
               else if b2 then ''URGENT MAINTENANCE REQUIRED''
               else if b3 then ''SCHEDULE MAINTENANCE'' else ''ROUTINE MAINTENANCE'')"
  shows "(a = ''IMMEDIATE INTERVENTION REQUIRED'' \<longleftrightarrow> l = ''CRITICAL'')"
        "(a = ''URGENT MAINTENANCE REQUIRED'' \<longleftrightarrow> l = ''HIGH'')"
        "(a = ''SCHEDULE MAINTENANCE'' \<longleftrightarrow> l = ''MEDIUM'')"
        "(a = ''ROUTINE MAINTENANCE'' \<longleftrightarrow> l = ''LOW'')"
  unfolding l_def a_def
  by (cases b1; cases b2; cases b3;
      simp only: level_names_distinct action_names_distinct if_True if_False simp_thms)+

lemma calculate_building_risk_level_iff:
  assumes init: "RiskProbabilityModel_init fw aw rw = Inr self"
  shows "risk_level (calculate_building_risk self bid fp ap fs n now) = ''CRITICAL''
     \<longleftrightarrow> 0.80 \<le> risk_probability (calculate_building_risk self bid fp ap fs n now)"
proof -
  have th: "(0.40::real) \<le> 0.60" "(0.60::real) \<le> 0.80" by simp_all
  show ?thesis
    unfolding risk_level_eq[of self bid fp ap fs n now] init_Inr[OF init] Let_def
    by (rule level_table[OF th])
qed

lemma composite_in_unit:
  fixes fw aw rw :: real
  assumes nn: "0 \<le> fw" "0 \<le> aw" "0 \<le> rw" and pos: "0 < fw + aw + rw"
    and f: "0 \<le> f" "f \<le> 1" and a: "0 \<le> a" "a \<le> 1" and q: "0 \<le> q" "q \<le> 1"
  shows "0 \<le> fw / (fw + aw + rw) * f + aw / (fw + aw + rw) * a + rw / (fw + aw + rw) * q"
    and "fw / (fw + aw + rw) * f + aw / (fw + aw + rw) * a + rw / (fw + aw + rw) * q \<le> 1"
proof -
  let ?t = "fw + aw + rw"
  have e: "fw / ?t * f + aw / ?t * a + rw / ?t * q = (fw * f + aw * a + rw * q) / ?t"
    by (simp add: add_divide_distrib)
  have lo: "0 \<le> fw * f + aw * a + rw * q"
    using nn f a q by (intro add_nonneg_nonneg mult_nonneg_nonneg)
  have "fw * f \<le> fw" "aw * a \<le> aw" "rw * q \<le> rw"
    by (rule mult_left_le[OF f(2) nn(1)], rule mult_left_le[OF a(2) nn(2)],
        rule mult_left_le[OF q(2) nn(3)])
  then have hi: "fw * f + aw * a + rw * q \<le> ?t" by simp
  show "0 \<le> fw / ?t * f + aw / ?t * a + rw / ?t * q"
    unfolding e using lo pos by simp
  show "fw / ?t * f + aw / ?t * a + rw / ?t * q \<le> 1"
    unfolding e using hi pos by simp
qed

lemma logistic_mono:
  fixes c d :: real
  assumes "c \<le> d"
  shows "1 / (1 + exp (- 5 * (c - 0.5))) \<le> 1 / (1 + exp (- 5 * (d - 0.5)))"
proof -
  have "exp (- 5 * (d - 0.5)) \<le> exp (- 5 * (c - 0.5))" using assms by simp
  then show ?thesis
    by (intro divide_left_mono) (simp_all add: add_pos_pos)
qed

lemma logistic_critical_iff:
  fixes c :: real
  shows "0.80 \<le> 1 / (1 + exp (- 5 * (c - 0.5))) \<longleftrightarrow> 0.5 + ln 4 / 5 \<le> c"
proof -
  let ?E = "exp (- 5 * (c - 0.5))"
  have Epos: "0 < 1 + ?E" by (simp add: add_pos_pos)
  have "0.80 \<le> 1 / (1 + ?E) \<longleftrightarrow> 0.80 * (1 + ?E) \<le> 1"
    using Epos by (simp add: pos_le_divide_eq)
  also have "\<dots> \<longleftrightarrow> ?E \<le> 1 / 4" by auto
  also have "\<dots> \<longleftrightarrow> ?E \<le> exp (- ln 4)" by (simp add: exp_minus inverse_eq_divide)
  also have "\<dots> \<longleftrightarrow> - 5 * (c - 0.5) \<le> - ln 4" by (simp only: exp_le_cancel_iff)
  also have "\<dots> \<longleftrightarrow> 0.5 + ln 4 / 5 \<le> c" by argo
  finally show ?thesis .
qed

text \<open>
  Claim C1. For a model built by the constructor, \<open>calculate_building_risk\<close> clamps the
  three inputs to the unit interval, blends them with the normalised weights, rescales the
  blend by the logistic function, which lands in the unit interval, and names the level by
  the thresholds 0.80, 0.60 and 0.40, each level with its own action label.
\<close>

theorem calculate_building_risk_spec:
  assumes init: "RiskProbabilityModel_init fw aw rw = Inr self"
    and r: "r = calculate_building_risk self bid fp ap fs n now"
  shows "failure_component r = max 0 (min 1 fp)
       \<and> anomaly_component r = max 0 (min 1 ap)
       \<and> recency_component r = max 0 (min 1 fs)
       \<and> {failure_component r, anomaly_component r, recency_component r} \<subseteq> {0..1}
       \<and> composite_score r = fw / (fw + aw + rw) * failure_component r
                            + aw / (fw + aw + rw) * anomaly_component r
                            + rw / (fw + aw + rw) * recency_component r
       \<and> risk_probability r = 1 / (1 + exp (- 5 * (composite_score r - 0.5)))
       \<and> 0 \<le> risk_probability r \<and> risk_probability r \<le> 1
       \<and> (risk_level r = ''CRITICAL'' \<longleftrightarrow> 0.80 \<le> risk_probability r)
       \<and> (risk_level r = ''HIGH'' \<longleftrightarrow> 0.60 \<le> risk_probability r \<and> risk_probability r < 0.80)
       \<and> (risk_level r = ''MEDIUM'' \<longleftrightarrow> 0.40 \<le> risk_probability r \<and> risk_probability r < 0.60)
       \<and> (risk_level r = ''LOW'' \<longleftrightarrow> risk_probability r < 0.40)
       \<and> (action r = ''IMMEDIATE INTERVENTION REQUIRED'' \<longleftrightarrow> risk_level r = ''CRITICAL'')
       \<and> (action r = ''URGENT MAINTENANCE REQUIRED'' \<longleftrightarrow> risk_level r = ''HIGH'')
       \<and> (action r = ''SCHEDULE MAINTENANCE'' \<longleftrightarrow> risk_level r = ''MEDIUM'')
       \<and> (action r = ''ROUTINE MAINTENANCE'' \<longleftrightarrow> risk_level r = ''LOW'')"
proof -
  note w = init_Inr[OF init]
  let ?R = "calculate_building_risk self bid fp ap fs n now"
  have comps: "failure_component ?R = max 0 (min 1 fp)" "anomaly_component ?R = max 0 (min 1 ap)"
      "recency_component ?R = max 0 (min 1 fs)"
    by (rule risk_components)+
  have comp: "composite_score ?R = fw / (fw + aw + rw) * failure_component ?R
                            + aw / (fw + aw + rw) * anomaly_component ?R
                            + rw / (fw + aw + rw) * recency_component ?R"
    by (simp only: risk_components w)
  have rp: "risk_probability ?R = 1 / (1 + exp (- 5 * (composite_score ?R - 0.5)))"
    by (rule risk_components)
  have p01: "0 \<le> risk_probability ?R" "risk_probability ?R \<le> 1"
    unfolding rp using logistic_pos logistic_less_one by (simp_all add: less_imp_le)
  have rng: "{failure_component ?R, anomaly_component ?R, recency_component ?R} \<subseteq> {0..1}"
    by (simp add: comps)
  have th: "(0.40::real) \<le> 0.60" "(0.60::real) \<le> 0.80" by simp_all
  have lv: "(risk_level ?R = ''CRITICAL'' \<longleftrightarrow> 0.80 \<le> risk_probability ?R)"
    "(risk_level ?R = ''HIGH'' \<longleftrightarrow> 0.60 \<le> risk_probability ?R \<and> risk_probability ?R < 0.80)"
    "(risk_level ?R = ''MEDIUM'' \<longleftrightarrow> 0.40 \<le> risk_probability ?R \<and> risk_probability ?R < 0.60)"
    "(risk_level ?R = ''LOW'' \<longleftrightarrow> risk_probability ?R < 0.40)"
    unfolding risk_level_eq[of self bid fp ap fs n now] w Let_def
    by (rule level_table[OF th])+
  have ac: "(action ?R = ''IMMEDIATE INTERVENTION REQUIRED'' \<longleftrightarrow> risk_level ?R = ''CRITICAL'')"
    "(action ?R = ''URGENT MAINTENANCE REQUIRED'' \<longleftrightarrow> risk_level ?R = ''HIGH'')"
    "(action ?R = ''SCHEDULE MAINTENANCE'' \<longleftrightarrow> risk_level ?R = ''MEDIUM'')"
    "(action ?R = ''ROUTINE MAINTENANCE'' \<longleftrightarrow> risk_level ?R = ''LOW'')"
    unfolding risk_level_eq[of self bid fp ap fs n now] risk_action_eq[of self bid fp ap fs n now] Let_def
    by (rule action_table)+
  show ?thesis
    unfolding r using comps comp rp p01 rng lv ac by blast
qed

theorem calculate_building_risk_spec_witness:
  "RiskProbabilityModel_init 1 1 2 = Inr \<lparr> failure_weight = 1/4, anomaly_weight = 1/4,
        recency_weight = 1/2, risk_threshold_critical = 0.80, risk_threshold_high = 0.60,
        risk_threshold_medium = 0.40 \<rparr>
   \<and> composite_score (calculate_building_risk \<lparr> failure_weight = 1/4, anomaly_weight = 1/4,
        recency_weight = 1/2, risk_threshold_critical = 0.80, risk_threshold_high = 0.60,
        risk_threshold_medium = 0.40 \<rparr> ''B1'' 1 3 0 2 ''t'') = 1 / 2
   \<and> risk_probability (calculate_building_risk \<lparr> failure_weight = 1/4, anomaly_weight = 1/4,
        recency_weight = 1/2, risk_threshold_critical = 0.80, risk_threshold_high = 0.60,
        risk_threshold_medium = 0.40 \<rparr> ''B1'' 1 3 0 2 ''t'') = 1 / 2
   \<and> risk_level (calculate_building_risk \<lparr> failure_weight = 1/4, anomaly_weight = 1/4,
        recency_weight = 1/2, risk_threshold_critical = 0.80, risk_threshold_high = 0.60,
        risk_threshold_medium = 0.40 \<rparr> ''B1'' 1 3 0 2 ''t'') = ''MEDIUM''
   \<and> action (calculate_building_risk \<lparr> failure_weight = 1/4, anomaly_weight = 1/4,
        recency_weight = 1/2, risk_threshold_critical = 0.80, risk_threshold_high = 0.60,
        risk_threshold_medium = 0.40 \<rparr> ''B1'' 1 3 0 2 ''t'') = ''SCHEDULE MAINTENANCE''"
proof -
  let ?M = "\<lparr> failure_weight = 1/4, anomaly_weight = 1/4,
        recency_weight = 1/2, risk_threshold_critical = 0.80, risk_threshold_high = 0.60,
        risk_threshold_medium = (0.40::real) \<rparr>"
  let ?R = "calculate_building_risk ?M ''B1'' 1 3 0 2 ''t''"
  have i: "RiskProbabilityModel_init 1 1 2 = Inr ?M"
    by (simp add: RiskProbabilityModel_init_def)
  note s = calculate_building_risk_spec[OF i refl, of "''B1''" 1 3 0 2 "''t''"]
  have c: "composite_score ?R = 1 / 2" using s by simp
  have p: "risk_probability ?R = 1 / 2" using s c by simp
  have l: "risk_level ?R = ''MEDIUM''" using s p by simp
  have a: "action ?R = ''SCHEDULE MAINTENANCE''" using s l by simp
  show ?thesis using i c p l a by blast
qed

text \<open>
  Claim C2 as stated fails: with all three weights zero the constructor divides by zero,
  and no model is built.
\<close>

theorem init_zero_sum_counterexample:
  "RiskProbabilityModel_init 0 0 0 = Inl ZeroDivisionError"
  by (simp add: RiskProbabilityModel_init_def)

text \<open>
  Claim C2, amended. For three non-negative weights that are not all zero and whose sum lies
  within the range of the doubles (at most \<open>2 ^ 1023\<close>), the constructor stores each weight
  divided by the sum, and the stored weights add up to one: exactly over the reals, hence
  within floating tolerance in the program. When all three weights are zero the constructor
  raises \<open>ZeroDivisionError\<close>.
\<close>

theorem init_weights_sum_to_one:
  "(0 \<le> fw \<and> 0 \<le> aw \<and> 0 \<le> rw \<and> 0 < fw + aw + rw \<and> fw + aw + rw \<le> 2 ^ 1023 \<longrightarrow>
      (\<exists>self. RiskProbabilityModel_init fw aw rw = Inr self
         \<and> failure_weight self = fw / (fw + aw + rw)
         \<and> anomaly_weight self = aw / (fw + aw + rw)
         \<and> recency_weight self = rw / (fw + aw + rw)
         \<and> 0 \<le> failure_weight self \<and> 0 \<le> anomaly_weight self \<and> 0 \<le> recency_weight self
         \<and> failure_weight self + anomaly_weight self + recency_weight self = 1))
   \<and> (fw = 0 \<and> aw = 0 \<and> rw = 0 \<longrightarrow> RiskProbabilityModel_init fw aw rw = Inl ZeroDivisionError)"
proof (intro conjI impI)
  assume a: "0 \<le> fw \<and> 0 \<le> aw \<and> 0 \<le> rw \<and> 0 < fw + aw + rw \<and> fw + aw + rw \<le> 2 ^ 1023"
  then have nz: "fw + aw + rw \<noteq> 0" by simp
  have one: "fw / (fw + aw + rw) + aw / (fw + aw + rw) + rw / (fw + aw + rw) = 1"
    using nz by (simp add: add_divide_distrib[symmetric])
  have pos: "0 \<le> fw / (fw + aw + rw)" "0 \<le> aw / (fw + aw + rw)" "0 \<le> rw / (fw + aw + rw)"
    using a by simp_all
  show "\<exists>self. RiskProbabilityModel_init fw aw rw = Inr self
         \<and> failure_weight self = fw / (fw + aw + rw)
         \<and> anomaly_weight self = aw / (fw + aw + rw)
         \<and> recency_weight self = rw / (fw + aw + rw)
         \<and> 0 \<le> failure_weight self \<and> 0 \<le> anomaly_weight self \<and> 0 \<le> recency_weight self
         \<and> failure_weight self + anomaly_weight self + recency_weight self = 1"
    using nz one pos by (simp add: RiskProbabilityModel_init_def Let_def)
next
  assume "fw = 0 \<and> aw = 0 \<and> rw = 0"
  then show "RiskProbabilityModel_init fw aw rw = Inl ZeroDivisionError"
    by (simp add: RiskProbabilityModel_init_def Let_def)
qed

theorem init_weights_sum_to_one_witness:
  "(0::real) \<le> 2 \<and> (0::real) \<le> 3 \<and> (0::real) \<le> 5 \<and> (0::real) < 2 + 3 + 5
   \<and> (2::real) + 3 + 5 \<le> 2 ^ 1023
   \<and> (\<exists>self. RiskProbabilityModel_init 2 3 5 = Inr self
         \<and> failure_weight self = 1 / 5 \<and> anomaly_weight self = 3 / 10
         \<and> recency_weight self = 1 / 2
         \<and> failure_weight self + anomaly_weight self + recency_weight self = 1)
   \<and> RiskProbabilityModel_init 0 0 0 = Inl ZeroDivisionError"
proof -
  have b: "(2::real) + 3 + 5 \<le> 2 ^ 1023"
  proof -
    have "(2::real) + 3 + 5 \<le> 2 ^ 4" by simp
    also have "(2::real) ^ 4 \<le> 2 ^ 1023" by (rule power_increasing) simp_all
    finally show ?thesis .
  qed
  have h: "(0::real) \<le> 2 \<and> (0::real) \<le> 3 \<and> (0::real) \<le> 5 \<and> (0::real) < 2 + 3 + 5
           \<and> (2::real) + 3 + 5 \<le> 2 ^ 1023"
    using b by simp
  from init_weights_sum_to_one[of 2 3 5] h
  obtain self where s: "RiskProbabilityModel_init 2 3 5 = Inr self"
      "failure_weight self = 2 / (2 + 3 + 5)" "anomaly_weight self = 3 / (2 + 3 + 5)"
      "recency_weight self = 5 / (2 + 3 + 5)"
      "failure_weight self + anomaly_weight self + recency_weight self = 1"
    by blast
  have e: "\<exists>self. RiskProbabilityModel_init 2 3 5 = Inr self
         \<and> failure_weight self = 1 / 5 \<and> anomaly_weight self = 3 / 10
         \<and> recency_weight self = 1 / 2
         \<and> failure_weight self + anomaly_weight self + recency_weight self = 1"
    using s by (intro exI[of _ self]) simp
  have z: "RiskProbabilityModel_init 0 0 0 = Inl ZeroDivisionError"
    using init_weights_sum_to_one[of 0 0 0] by simp
  show ?thesis using h e z by blast
qed

lemma exp_taylor_lower:
  fixes x :: real
  assumes "0 \<le> x"
  shows "(\<Sum>m<n. x ^ m / fact m) \<le> exp x"
proof -
  from Maclaurin_exp_le[of x n] obtain t where
    e: "exp x = (\<Sum>m<n. x ^ m / fact m) + (exp t / fact n) * x ^ n" by blast
  have "0 \<le> (exp t / fact n) * x ^ n" using assms by simp
  then show ?thesis unfolding e by simp
qed

lemma exp_taylor_upper:
  fixes x :: real
  assumes x: "0 \<le> x" and r: "x ^ n / fact n < 1"
  shows "exp x \<le> (\<Sum>m<n. x ^ m / fact m) / (1 - x ^ n / fact n)"
proof -
  from Maclaurin_exp_le[of x n] obtain t where
    t: "\<bar>t\<bar> \<le> \<bar>x\<bar>" and e: "exp x = (\<Sum>m<n. x ^ m / fact m) + (exp t / fact n) * x ^ n" by blast
  have "t \<le> x" using t x by linarith
  then have "exp t \<le> exp x" by simp
  then have "(exp t / fact n) * x ^ n \<le> (exp x / fact n) * x ^ n"
    using x by (intro mult_right_mono divide_right_mono) simp_all
  then have "exp x \<le> (\<Sum>m<n. x ^ m / fact m) + exp x * (x ^ n / fact n)"
    using e by simp
  then have "exp x * (1 - x ^ n / fact n) \<le> (\<Sum>m<n. x ^ m / fact m)"
    by (simp add: algebra_simps)
  then show ?thesis using r by (simp add: pos_le_divide_eq)
qed

lemma exp_5_2_bounds: "12.16 < exp (5 / 2 :: real)" "exp (5 / 2 :: real) < 12.19"
proof -
  have s: "(\<Sum>m<12. (5 / 2 :: real) ^ m / fact m) = 39836061571 / 3269984256"
    by (simp add: lessThan_nat_numeral numeral_eq_Suc fact_reduce) 
  show "12.16 < exp (5 / 2 :: real)"
    using exp_taylor_lower[of "5 / 2" 12] unfolding s by simp
  have r: "(5 / 2 :: real) ^ 12 / fact 12 < 1" by (simp add: fact_numeral power_divide)
  show "exp (5 / 2 :: real) < 12.19"
    using exp_taylor_upper[OF _ r] unfolding s by (simp add: fact_numeral power_divide)
qed


lemma ln_4_bounds: "1.385 < ln (4 :: real)" "ln (4 :: real) < 1.39"
proof -
  have s1: "(\<Sum>m<10. (139 / 100 :: real) ^ m / fact m) = 1456905710465912836224559 / 362880000000000000000000"
    by (simp add: lessThan_nat_numeral numeral_eq_Suc fact_reduce)
  have "4 < exp (139 / 100 :: real)"
    using exp_taylor_lower[of "139 / 100" 10] unfolding s1 by simp
  then have "ln 4 < ln (exp (139 / 100 :: real))" by (subst ln_less_cancel_iff) simp_all
  then show "ln (4 :: real) < 1.39" by simp
  have s2: "(\<Sum>m<10. (277 / 200 :: real) ^ m / fact m) = 742215402485527030290423037 / 185794560000000000000000000"
    by (simp add: lessThan_nat_numeral numeral_eq_Suc fact_reduce)
  have r: "(277 / 200 :: real) ^ 10 / fact 10 < 1" by (simp add: fact_numeral power_divide)
  have "exp (277 / 200 :: real) < 4"
    using exp_taylor_upper[OF _ r] unfolding s2 by (simp add: fact_numeral power_divide)
  then have "ln (exp (277 / 200 :: real)) < ln 4" by (subst ln_less_cancel_iff) simp_all
  then show "1.385 < ln (4 :: real)" by simp
qed


lemma risk_bound_values:
  "0.0758 < 1 / (1 + exp (2.5 :: real))" "1 / (1 + exp (2.5 :: real)) < 0.0760"
  "0.9240 < 1 / (1 + exp (- 2.5 :: real))" "1 / (1 + exp (- 2.5 :: real)) < 0.9242"
  "0.777 < 0.5 + ln (4 :: real) / 5" "0.5 + ln (4 :: real) / 5 < 0.778"
proof -
  define e where "e = exp (5 / 2 :: real)"
  have b: "12.16 < e" "e < 12.19" unfolding e_def by (rule exp_5_2_bounds)+
  have p: "0 < e" using b by linarith
  have a: "exp (2.5 :: real) = e" unfolding e_def by simp
  have m: "exp (- 2.5 :: real) = 1 / e" unfolding e_def by (simp add: exp_minus inverse_eq_divide)
  show "0.0758 < 1 / (1 + exp (2.5 :: real))"
    unfolding a using b p by (simp add: pos_less_divide_eq)
  show "1 / (1 + exp (2.5 :: real)) < 0.0760"
    unfolding a using b p by (simp add: pos_divide_less_eq)
  have q: "1 / (1 + 1 / e) = e / (e + 1)" using p by (simp add: field_simps)
  show "0.9240 < 1 / (1 + exp (- 2.5 :: real))"
    unfolding m q using b p by (simp add: pos_less_divide_eq)
  show "1 / (1 + exp (- 2.5 :: real)) < 0.9242"
    unfolding m q using b p by (simp add: pos_divide_less_eq)
  show "0.777 < 0.5 + ln (4 :: real) / 5" using ln_4_bounds by simp
  show "0.5 + ln (4 :: real) / 5 < 0.778" using ln_4_bounds by simp
qed

text \<open>
  Claim C10 as stated fails: a negative weight lets the blend leave the unit interval, and
  the risk probability then passes the bound \<open>1 / (1 + exp (- 2.5))\<close>.
\<close>

theorem risk_probability_bounds_counterexample:
  "RiskProbabilityModel_init 2 (- 1) 0 = Inr \<lparr> failure_weight = 2, anomaly_weight = - 1,
        recency_weight = 0, risk_threshold_critical = 0.80, risk_threshold_high = 0.60,
        risk_threshold_medium = 0.40 \<rparr>
   \<and> composite_score (calculate_building_risk \<lparr> failure_weight = 2, anomaly_weight = - 1,
        recency_weight = 0, risk_threshold_critical = 0.80, risk_threshold_high = 0.60,
        risk_threshold_medium = 0.40 \<rparr> ''B1'' 1 0 0 0 ''t'') = 2
   \<and> \<not> risk_probability (calculate_building_risk \<lparr> failure_weight = 2, anomaly_weight = - 1,
        recency_weight = 0, risk_threshold_critical = 0.80, risk_threshold_high = 0.60,
        risk_threshold_medium = 0.40 \<rparr> ''B1'' 1 0 0 0 ''t'') \<le> 1 / (1 + exp (- 2.5))"
proof -
  let ?M = "\<lparr> failure_weight = 2, anomaly_weight = - 1,
        recency_weight = 0, risk_threshold_critical = 0.80, risk_threshold_high = 0.60,
        risk_threshold_medium = (0.40::real) \<rparr>"
  let ?R = "calculate_building_risk ?M ''B1'' 1 0 0 0 ''t''"
  have i: "RiskProbabilityModel_init 2 (- 1) 0 = Inr ?M"
    by (simp add: RiskProbabilityModel_init_def)
  have c: "composite_score ?R = 2"
    by (simp add: risk_components)
  have p: "risk_probability ?R = 1 / (1 + exp (- 5 * (2 - 0.5)))"
    unfolding risk_components(5) c ..
  have "exp (- 5 * (2 - 0.5)) < exp (- 2.5 :: real)"
    by (simp only: exp_less_cancel_iff) simp
  then have "1 / (1 + exp (- 2.5 :: real)) < 1 / (1 + exp (- 5 * (2 - 0.5)))"
    by (intro divide_strict_left_mono) (simp_all add: add_pos_pos)
  then have "\<not> risk_probability ?R \<le> 1 / (1 + exp (- 2.5))"
    unfolding p by (simp only: not_le)
  then show ?thesis using i c by blast
qed

text \<open>
  Claim C10, amended. When the three constructor weights are non-negative (and their sum is
  not zero) the blend lies in the unit interval, the risk probability lies between
  \<open>1 / (1 + exp 2.5)\<close> and \<open>1 / (1 + exp (- 2.5))\<close>, about 0.0759 and 0.9241, so it is
  never 0 or 1, and the level is CRITICAL exactly when the blend is at least
  \<open>0.5 + ln 4 / 5\<close>, about 0.777.
\<close>

theorem risk_probability_bounds:
  assumes init: "RiskProbabilityModel_init fw aw rw = Inr self"
    and nonneg: "0 \<le> fw" "0 \<le> aw" "0 \<le> rw"
    and r: "r = calculate_building_risk self bid fp ap fs n now"
  shows "0 \<le> composite_score r \<and> composite_score r \<le> 1
       \<and> 1 / (1 + exp 2.5) \<le> risk_probability r
       \<and> risk_probability r \<le> 1 / (1 + exp (- 2.5))
       \<and> 0 < risk_probability r \<and> risk_probability r < 1
       \<and> (risk_level r = ''CRITICAL'' \<longleftrightarrow> 0.5 + ln 4 / 5 \<le> composite_score r)
       \<and> 0.0758 < 1 / (1 + exp (2.5 :: real)) \<and> 1 / (1 + exp (2.5 :: real)) < 0.0760
       \<and> 0.9240 < 1 / (1 + exp (- 2.5 :: real)) \<and> 1 / (1 + exp (- 2.5 :: real)) < 0.9242
       \<and> 0.777 < 0.5 + ln (4 :: real) / 5 \<and> 0.5 + ln (4 :: real) / 5 < 0.778"
proof -
  note w = init_Inr[OF init]
  let ?R = "calculate_building_risk self bid fp ap fs n now"
  let ?c = "composite_score ?R"
  have pos: "0 < fw + aw + rw" using w(1) nonneg by linarith
  have ceq: "?c = fw / (fw + aw + rw) * max 0 (min 1 fp) + aw / (fw + aw + rw) * max 0 (min 1 ap)
       + rw / (fw + aw + rw) * max 0 (min 1 fs)"
    by (simp only: risk_components w)
  have c01: "0 \<le> ?c" "?c \<le> 1"
    unfolding ceq by (rule composite_in_unit[OF nonneg pos]; simp)+
  have rp: "risk_probability ?R = 1 / (1 + exp (- 5 * (?c - 0.5)))"
    by (rule risk_components)
  have lo: "1 / (1 + exp 2.5) \<le> risk_probability ?R"
    unfolding rp using logistic_mono[OF c01(1)] by simp
  have hi: "risk_probability ?R \<le> 1 / (1 + exp (- 2.5))"
    unfolding rp using logistic_mono[OF c01(2)] by simp
  have strict: "0 < risk_probability ?R" "risk_probability ?R < 1"
    unfolding rp by (rule logistic_pos, rule logistic_less_one)
  have "risk_level ?R = ''CRITICAL'' \<longleftrightarrow> 0.80 \<le> risk_probability ?R"
    using calculate_building_risk_level_iff[OF init] by simp
  then have crit: "risk_level ?R = ''CRITICAL'' \<longleftrightarrow> 0.5 + ln 4 / 5 \<le> ?c"
    unfolding rp by (simp only: logistic_critical_iff)
  show ?thesis unfolding r using c01 lo hi strict crit risk_bound_values by (intro conjI)
qed

theorem risk_probability_bounds_witness:
  "RiskProbabilityModel_init 1 1 2 = Inr \<lparr> failure_weight = 1/4, anomaly_weight = 1/4,
        recency_weight = 1/2, risk_threshold_critical = 0.80, risk_threshold_high = 0.60,
        risk_threshold_medium = 0.40 \<rparr>
   \<and> (0::real) \<le> 1 \<and> (0::real) \<le> 2
   \<and> 1 / (1 + exp 2.5) \<le> risk_probability (calculate_building_risk \<lparr> failure_weight = 1/4,
        anomaly_weight = 1/4, recency_weight = 1/2, risk_threshold_critical = 0.80,
        risk_threshold_high = 0.60, risk_threshold_medium = 0.40 \<rparr> ''B1'' 1 3 0 2 ''t'')
   \<and> risk_probability (calculate_building_risk \<lparr> failure_weight = 1/4,
        anomaly_weight = 1/4, recency_weight = 1/2, risk_threshold_critical = 0.80,
        risk_threshold_high = 0.60, risk_threshold_medium = 0.40 \<rparr> ''B1'' 1 3 0 2 ''t'')
        \<le> 1 / (1 + exp (- 2.5))"
proof -
  let ?M = "\<lparr> failure_weight = 1/4, anomaly_weight = 1/4,
        recency_weight = 1/2, risk_threshold_critical = 0.80, risk_threshold_high = 0.60,
        risk_threshold_medium = (0.40::real) \<rparr>"
  have i: "RiskProbabilityModel_init 1 1 2 = Inr ?M"
    by (simp add: RiskProbabilityModel_init_def)
  have n: "(0::real) \<le> 1" "(0::real) \<le> 2" by simp_all
  from risk_probability_bounds[OF i n(1) n(1) n(2) refl, of "''B1''" 1 3 0 2 "''t''"]
  show ?thesis using i n by blast
qed

section \<open>The frequency score of the risk endpoint\<close>

lemma sqrt_100: "sqrt 100 = 10"
  using real_sqrt_abs[of 10] by simp

lemma sqrt_50_bounds: "7.07 < sqrt 50" "sqrt 50 < 7.08"
proof -
  show "7.07 < sqrt 50" by (rule real_less_rsqrt) (simp add: power2_eq_square)
  show "sqrt 50 < 7.08" by (rule real_less_lsqrt) (simp_all add: power2_eq_square)
qed

lemma freq_score_of_unfold:
  "freq_score_of bi =
     (if length bi = 0 then 0
      else min 1 (min 1 (sqrt (real (length bi)) / sqrt 100)
                  + min 0.2 (real (recent_critical_of bi) / real (length bi) * 0.4)))"
  by (simp add: freq_score_of_def Let_def)

text \<open>
  Claim C3. For the issues of a building, the frequency score of the risk endpoint is
  \<open>min 1 (sqrt n / sqrt 100)\<close> plus the boost \<open>min 0.2 (critical / n * 0.4)\<close>, cut at 1 (and 0
  for a building with no issue); 50 issues none of them critical give \<open>sqrt 50 / sqrt 100\<close>,
  about 0.707, and 100 issues all critical give exactly 1.
\<close>

theorem freq_score_spec:
  "(let building_issues = issues_of issues_df bid;
        n = length building_issues;
        critical = recent_critical_of building_issues;
        score = freq_score_of building_issues
    in (n = 0 \<longrightarrow> score = 0)
     \<and> (0 < n \<longrightarrow> score = min 1 (min 1 (sqrt (real n) / sqrt 100)
                                   + min 0.2 (real critical / real n * 0.4)))
     \<and> score \<le> 1
     \<and> (n = 50 \<and> critical = 0 \<longrightarrow>
           score = sqrt 50 / sqrt 100 \<and> 0.707 < score \<and> score < 0.708)
     \<and> (n = 100 \<and> critical = 100 \<longrightarrow> score = 1))"
proof -
  let ?bi = "issues_of issues_df bid"
  let ?n = "length ?bi" and ?c = "recent_critical_of ?bi" and ?s = "freq_score_of ?bi"
  have a: "?n = 0 \<longrightarrow> ?s = 0" by (simp add: freq_score_of_unfold)
  have b: "0 < ?n \<longrightarrow> ?s = min 1 (min 1 (sqrt (real ?n) / sqrt 100)
                                   + min 0.2 (real ?c / real ?n * 0.4))"
    by (simp add: freq_score_of_unfold)
  have c: "?s \<le> 1" by (simp add: freq_score_of_unfold)
  have d: "?n = 50 \<and> ?c = 0 \<longrightarrow> ?s = sqrt 50 / sqrt 100 \<and> 0.707 < ?s \<and> ?s < 0.708"
  proof
    assume h: "?n = 50 \<and> ?c = 0"
    have "?s = min 1 (min 1 (sqrt 50 / 10))"
      using h by (simp add: freq_score_of_unfold[of ?bi] sqrt_100)
    then have "?s = sqrt 50 / 10" using sqrt_50_bounds by simp
    then show "?s = sqrt 50 / sqrt 100 \<and> 0.707 < ?s \<and> ?s < 0.708"
      using sqrt_50_bounds by (simp add: sqrt_100)
  qed
  have e: "?n = 100 \<and> ?c = 100 \<longrightarrow> ?s = 1"
  proof
    assume h: "?n = 100 \<and> ?c = 100"
    show "?s = 1" using h by (simp add: freq_score_of_unfold[of ?bi] sqrt_100)
  qed
  show ?thesis unfolding Let_def using a b c d e by blast
qed

theorem freq_score_spec_witness:
  "length (issues_of [ex_issue ''B1'' 5 0, ex_issue ''B2'' 1 0, ex_issue ''B1'' 2 0,
                      ex_issue ''B1'' 4 0, ex_issue ''B1'' 3 0] ''B1'') = 4
   \<and> recent_critical_of (issues_of [ex_issue ''B1'' 5 0, ex_issue ''B2'' 1 0,
        ex_issue ''B1'' 2 0, ex_issue ''B1'' 4 0, ex_issue ''B1'' 3 0] ''B1'') = 2
   \<and> freq_score_of (issues_of [ex_issue ''B1'' 5 0, ex_issue ''B2'' 1 0, ex_issue ''B1'' 2 0,
                      ex_issue ''B1'' 4 0, ex_issue ''B1'' 3 0] ''B1'') = 2 / 5"
proof -
  let ?df = "[ex_issue ''B1'' 5 0, ex_issue ''B2'' 1 0, ex_issue ''B1'' 2 0,
                      ex_issue ''B1'' 4 0, ex_issue ''B1'' 3 0]"
  have n: "length (issues_of ?df ''B1'') = 4"
    by (simp add: issues_of_def)
  have c: "recent_critical_of (issues_of ?df ''B1'') = 2"
    by (simp add: recent_critical_of_def issues_of_def)
  have "freq_score_of (issues_of ?df ''B1'') = 2 / 5"
    using freq_score_spec[of ?df "''B1''"] unfolding Let_def n c
    by (simp add: sqrt_100)
  then show ?thesis using n c by blast
qed

section \<open>Inference with the detectors\<close>

lemma minmax_scale:
  fixes scores :: "real list"
  assumes ne: "scores \<noteq> []"
  defines "lo \<equiv> Min (set scores)" and "hi \<equiv> Max (set scores)"
  defines "probs \<equiv> (if hi - lo > 0 then map (\<lambda>s. 1 - (s - lo) / (hi - lo)) scores
                      else map (\<lambda>s. 0) scores)"
  shows "length probs = length scores"
    and "lo < hi \<longrightarrow> (\<forall>i<length scores. probs ! i = 1 - (scores ! i - lo) / (hi - lo))"
    and "\<forall>i<length scores. 0 \<le> probs ! i \<and> probs ! i \<le> 1"
    and "\<forall>i<length scores. \<forall>j<length scores. scores ! i < scores ! j \<longrightarrow> probs ! j < probs ! i"
    and "(\<forall>i<length scores. \<forall>j<length scores. scores ! i = scores ! j)
            \<longrightarrow> (\<forall>i<length scores. probs ! i = 0)"
proof -
  have bnd: "lo \<le> scores ! i \<and> scores ! i \<le> hi" if "i < length scores" for i
    using that unfolding lo_def hi_def by (simp add: Min_le Max_ge)
  show "length probs = length scores" by (simp add: probs_def)
  show "lo < hi \<longrightarrow> (\<forall>i<length scores. probs ! i = 1 - (scores ! i - lo) / (hi - lo))"
    by (simp add: probs_def)
  show "\<forall>i<length scores. 0 \<le> probs ! i \<and> probs ! i \<le> 1"
  proof (intro allI impI)
    fix i assume i: "i < length scores"
    show "0 \<le> probs ! i \<and> probs ! i \<le> 1"
    proof (cases "hi - lo > 0")
      case True
      have "0 \<le> (scores ! i - lo) / (hi - lo)" "(scores ! i - lo) / (hi - lo) \<le> 1"
        using bnd[OF i] True by (simp_all add: divide_le_eq)
      then show ?thesis using True i by (simp add: probs_def)
    next
      case False
      then show ?thesis using i by (simp add: probs_def)
    qed
  qed
  show "\<forall>i<length scores. \<forall>j<length scores. scores ! i < scores ! j \<longrightarrow> probs ! j < probs ! i"
  proof (intro allI impI)
    fix i j assume i: "i < length scores" and j: "j < length scores"
      and lt: "scores ! i < scores ! j"
    have pos: "hi - lo > 0" using bnd[OF i] bnd[OF j] lt by linarith
    have "(scores ! i - lo) / (hi - lo) < (scores ! j - lo) / (hi - lo)"
      using lt pos by (simp add: divide_strict_right_mono)
    then show "probs ! j < probs ! i" using pos i j by (simp add: probs_def)
  qed
  show "(\<forall>i<length scores. \<forall>j<length scores. scores ! i = scores ! j)
            \<longrightarrow> (\<forall>i<length scores. probs ! i = 0)"
  proof (intro allI impI)
    fix i assume eq: "\<forall>i<length scores. \<forall>j<length scores. scores ! i = scores ! j"
      and i: "i < length scores"
    have "lo \<in> set scores" "hi \<in> set scores"
      unfolding lo_def hi_def using ne by (simp_all add: Min_in Max_in)
    then have "lo = hi" using eq by (metis in_set_conv_nth)
    then show "probs ! i = 0" using i by (simp add: probs_def)
  qed
qed

text \<open>
  Claim C4. On a non-empty batch a fitted detector returns, for every sample, the
  probability \<open>1 - (score - min) / (max - min)\<close> over the batch minimum and maximum; the
  probabilities lie in the unit interval, a lower score has a higher probability, and when
  all scores are equal every probability is 0.
\<close>

theorem detect_anomalies_probability:
  assumes m: "model self = Some (Fitted predict score_samples)"
    and s: "scaler self = ScalerFitted tr"
    and ne: "X \<noteq> []"
  shows "\<exists>predictions scores probs.
     detect_anomalies self X = Inr (predictions, scores, probs)
     \<and> scores = map (\<lambda>x. score_samples (tr x)) X
     \<and> length probs = length scores
     \<and> (Min (set scores) < Max (set scores) \<longrightarrow>
          (\<forall>i<length scores. probs ! i
             = 1 - (scores ! i - Min (set scores)) / (Max (set scores) - Min (set scores))))
     \<and> (\<forall>i<length scores. 0 \<le> probs ! i \<and> probs ! i \<le> 1)
     \<and> (\<forall>i<length scores. \<forall>j<length scores. scores ! i < scores ! j \<longrightarrow> probs ! j < probs ! i)
     \<and> ((\<forall>i<length scores. \<forall>j<length scores. scores ! i = scores ! j)
            \<longrightarrow> (\<forall>i<length scores. probs ! i = 0))"
proof -
  define scores where "scores = map (\<lambda>x. score_samples (tr x)) X"
  define probs where "probs = (if Max (set scores) - Min (set scores) > 0
       then map (\<lambda>s. 1 - (s - Min (set scores)) / (Max (set scores) - Min (set scores))) scores
       else map (\<lambda>s. 0) scores)"
  have sne: "scores \<noteq> []" using ne by (simp add: scores_def)
  have d: "detect_anomalies self X = Inr (map (\<lambda>x. predict (tr x)) X, scores, probs)"
    using ne by (simp add: detect_anomalies_def m s scaler_transform_def Let_def
        scores_def probs_def comp_def)
  note mm = minmax_scale[OF sne, folded probs_def]
  show ?thesis
    apply (rule exI[of _ "map (\<lambda>x. predict (tr x)) X"])
    apply (rule exI[of _ scores])
    apply (rule exI[of _ probs])
    using d mm scores_def by blast
qed

theorem detect_anomalies_probability_witness:
  "model (example_detector hd) = Some (Fitted (\<lambda>r. 1) hd)
   \<and> scaler (example_detector hd) = ScalerFitted (\<lambda>r. r)
   \<and> [[0], [1 / 10], [1]] \<noteq> ([] :: real list list)
   \<and> detect_anomalies (example_detector hd) [[0], [1 / 10], [1]]
        = Inr ([1, 1, 1], [0, 1 / 10, 1], [1, 9 / 10, 0])
   \<and> [1, 9 / 10, 0 :: real] ! 1 < [1, 9 / 10, 0] ! 0"
proof -
  have m: "model (example_detector hd) = Some (Fitted (\<lambda>r. 1) hd)" by simp
  have s: "scaler (example_detector hd) = ScalerFitted (\<lambda>r. r)" by simp
  have ne: "[[0], [1 / 10], [1]] \<noteq> ([] :: real list list)" by simp
  have d0: "detect_anomalies (example_detector hd) [[0], [1 / 10], [1]]
        = Inr ([1, 1, 1], [0, 1 / 10, 1], [1, 9 / 10, 0])"
    by (simp add: detect_anomalies_def scaler_transform_def Let_def)
  from detect_anomalies_probability[OF m s ne]
  obtain predictions scores probs where
    d: "detect_anomalies (example_detector hd) [[0], [1 / 10], [1]] = Inr (predictions, scores, probs)"
    and mono: "\<forall>i<length scores. \<forall>j<length scores. scores ! i < scores ! j \<longrightarrow> probs ! j < probs ! i"
    by (elim exE conjE)
  have e: "scores = [0, 1 / 10, 1]" "probs = [1, 9 / 10, 0]"
    using d unfolding d0 by simp_all
  have "[0, 1 / 10, 1 :: real] ! 0 < [0, 1 / 10, 1] ! 1" by simp
  then have "[1, 9 / 10, 0 :: real] ! 1 < [1, 9 / 10, 0] ! 0"
    using mono unfolding e by simp
  then show ?thesis
    using m s ne d0 by (intro conjI)
qed

text \<open>
  Claim C8. A detector or a failure model that has only been constructed, with neither
  training nor loading, fails at inference with the not-fitted error and returns no
  result. The error comes from the unfitted scaler: the constructors always install an
  estimator, so the guard on a missing model in \<open>detect_anomalies\<close> does not fire here.
\<close>

theorem untrained_model_not_ready:
  "(AnomalyDetectionModel_init alg contam = Inr adm \<longrightarrow>
       detect_anomalies adm X = Inl NotFittedError \<and> (\<forall>r. detect_anomalies adm X \<noteq> Inr r))
   \<and> (FailurePredictionModel_init mt = Inr fpm \<longrightarrow>
       predict_failure_risk fpm X = Inl NotFittedError \<and> (\<forall>r. predict_failure_risk fpm X \<noteq> Inr r))"
proof (intro conjI impI)
  assume a: "AnomalyDetectionModel_init alg contam = Inr adm"
  then have f: "model adm = Some NotFitted" "scaler adm = ScalerNotFitted"
    by (auto simp: AnomalyDetectionModel_init_def split: if_splits)
  show e: "detect_anomalies adm X = Inl NotFittedError"
    by (simp add: detect_anomalies_def f scaler_transform_def)
  show "\<forall>r. detect_anomalies adm X \<noteq> Inr r" by (simp add: e)
next
  assume a: "FailurePredictionModel_init mt = Inr fpm"
  then have f: "classifier fpm = Some NotFitted" "fp_scaler fpm = ScalerNotFitted"
    by (auto simp: FailurePredictionModel_init_def split: if_splits)
  show e: "predict_failure_risk fpm X = Inl NotFittedError"
    by (simp add: predict_failure_risk_def f scaler_transform_def)
  show "\<forall>r. predict_failure_risk fpm X \<noteq> Inr r" by (simp add: e)
qed

theorem untrained_model_not_ready_witness:
  "AnomalyDetectionModel_init ''isolation_forest'' 0.1 =
      Inr \<lparr> algorithm = ''isolation_forest'', contamination = 0.1, scaler = ScalerNotFitted,
            model = Some NotFitted, feature_names = [] \<rparr>
   \<and> detect_anomalies \<lparr> algorithm = ''isolation_forest'', contamination = 0.1,
        scaler = ScalerNotFitted, model = Some NotFitted, feature_names = [] \<rparr> [[1, 2]]
        = Inl NotFittedError
   \<and> FailurePredictionModel_init ''xgboost'' =
      Inr \<lparr> model_type = ''xgboost'', classifier = Some NotFitted, fp_scaler = ScalerNotFitted,
            fp_feature_names = [] \<rparr>
   \<and> predict_failure_risk \<lparr> model_type = ''xgboost'', classifier = Some NotFitted,
        fp_scaler = ScalerNotFitted, fp_feature_names = [] \<rparr> [[1, 2]] = Inl NotFittedError"
proof -
  have a: "AnomalyDetectionModel_init ''isolation_forest'' 0.1 =
      Inr \<lparr> algorithm = ''isolation_forest'', contamination = 0.1, scaler = ScalerNotFitted,
            model = Some NotFitted, feature_names = [] \<rparr>"
    by (simp add: AnomalyDetectionModel_init_def)
  have b: "FailurePredictionModel_init ''xgboost'' =
      Inr \<lparr> model_type = ''xgboost'', classifier = Some NotFitted, fp_scaler = ScalerNotFitted,
            fp_feature_names = [] \<rparr>"
    by (simp add: FailurePredictionModel_init_def)
  from untrained_model_not_ready[of "''isolation_forest''" "0.1" _ "[[1, 2]]" "''xgboost''" _]
  show ?thesis using a b by blast
qed

section \<open>The ensemble of get\_anomalies\<close>

lemma anomalies_loop_mean:
  assumes "\<forall>(f, e, a, b) \<in> set xs. e = (a + b) / 2"
  shows "\<forall>r \<in> set (anomalies_loop xs). anomaly_probability r = (if_probability r + svm_probability r) / 2"
  using assms by (induction xs rule: anomalies_loop.induct) auto

lemma ensemble_probs_nth:
  assumes "length a = length b" "i < length a"
  shows "ensemble_probs a b ! i = (a ! i + b ! i) / 2"
  using assms by (simp add: ensemble_probs_def)

lemma zip_ensemble_mean:
  "\<forall>(f, e, a, b) \<in> set (zip fs (zip (ensemble_probs as bs) (zip as bs))). e = (a + b) / 2"
  by (auto simp: ensemble_probs_def set_zip)

text \<open>
  Claim C7. The ensemble probability of a building is the arithmetic mean of the
  probabilities of the two detectors: entry by entry on the two arrays, 0.6 for 0.9 and
  0.3, and in every entry that \<open>get_anomalies\<close> reports.
\<close>

theorem ensemble_is_mean:
  "(length if_probs = length svm_probs \<longrightarrow>
      (\<forall>i<length if_probs. ensemble_probs if_probs svm_probs ! i = (if_probs ! i + svm_probs ! i) / 2))
   \<and> ensemble_probs [0.9] [0.3] = [0.6]
   \<and> (get_anomalies self iso_week issues_df buildings_df = Inr anomalies \<longrightarrow>
        (\<forall>a \<in> set anomalies.
            anomaly_probability a = (if_probability a + svm_probability a) / 2))"
proof (intro conjI impI)
  assume "length if_probs = length svm_probs"
  then show "\<forall>i<length if_probs. ensemble_probs if_probs svm_probs ! i = (if_probs ! i + svm_probs ! i) / 2"
    by (simp add: ensemble_probs_nth)
next
  show "ensemble_probs [0.9] [0.3] = [0.6]" by (simp add: ensemble_probs_def)
next
  assume g: "get_anomalies self iso_week issues_df buildings_df = Inr anomalies"
  then obtain fs as bs where "anomalies = sorted_desc (anomalies_loop (zip fs (zip (ensemble_probs as bs) (zip as bs))))"
    by (auto simp: get_anomalies_def Let_def split: option.splits sum.splits prod.splits)
  then have "set anomalies = set (anomalies_loop (zip fs (zip (ensemble_probs as bs) (zip as bs))))"
    by (simp add: sorted_desc_def)
  then show "\<forall>a \<in> set anomalies. anomaly_probability a = (if_probability a + svm_probability a) / 2"
    using anomalies_loop_mean[OF zip_ensemble_mean] by simp
qed

lemma numeric_rows_example:
  "map numeric_row (engineer_anomaly_features (\<lambda>t. 0) [] example_buildings)
     = [[0, 0, 0, 0, 0, 0, 0], [1 / 10, 7 / 10, 0, 0, 0, 0, 0], [1, 1, 0, 0, 0, 0, 0]]"
  by (simp add: engineer_anomaly_features_def anomaly_features_of_def issues_of_def
      numeric_row_def fillna0_def building.defs anomaly_features.defs)

lemma detect_example_if:
  "detect_anomalies (example_detector hd)
      [[0, 0, 0, 0, 0, 0, 0], [1 / 10, 7 / 10, 0, 0, 0, 0, 0], [1, 1, 0, 0, 0, 0, 0]]
     = Inr ([1, 1, 1], [0, 1 / 10, 1], [1, 9 / 10, 0])"
  by (simp add: detect_anomalies_def scaler_transform_def Let_def)

lemma detect_example_svm:
  "detect_anomalies (example_detector (\<lambda>r. hd (tl r)))
      [[0, 0, 0, 0, 0, 0, 0], [1 / 10, 7 / 10, 0, 0, 0, 0, 0], [1, 1, 0, 0, 0, 0, 0]]
     = Inr ([1, 1, 1], [0, 7 / 10, 1], [1, 3 / 10, 0])"
  by (simp add: detect_anomalies_def scaler_transform_def Let_def)

lemma get_anomalies_example:
  "get_anomalies example_api (\<lambda>t. 0) [] example_buildings
     = Inr [example_entry ''b0'' ''A'' 1 ''CRITICAL'' 1 1,
            example_entry ''b1'' ''B'' (3 / 5) ''HIGH'' (9 / 10) (3 / 10)]"
  unfolding get_anomalies_def Let_def numeric_rows_example
  apply (simp add: detect_example_if detect_example_svm)
  apply (simp add: engineer_anomaly_features_def anomaly_features_of_def issues_of_def
        ensemble_probs_def sorted_desc_def building.defs anomaly_features.defs)
  done

theorem ensemble_is_mean_witness:
  "length [1, 9 / 10, 0 :: real] = length [1, 3 / 10, 0 :: real]
   \<and> ensemble_probs [1, 9 / 10, 0] [1, 3 / 10, 0] ! 1 = 3 / 5
   \<and> get_anomalies example_api (\<lambda>t. 0) [] example_buildings
       = Inr [example_entry ''b0'' ''A'' 1 ''CRITICAL'' 1 1,
              example_entry ''b1'' ''B'' (3 / 5) ''HIGH'' (9 / 10) (3 / 10)]
   \<and> anomaly_probability (example_entry ''b1'' ''B'' (3 / 5) ''HIGH'' (9 / 10) (3 / 10))
       = (if_probability (example_entry ''b1'' ''B'' (3 / 5) ''HIGH'' (9 / 10) (3 / 10))
          + svm_probability (example_entry ''b1'' ''B'' (3 / 5) ''HIGH'' (9 / 10) (3 / 10))) / 2"
proof -
  have l: "length [1, 9 / 10, 0 :: real] = length [1, 3 / 10, 0 :: real]" by simp
  note th = ensemble_is_mean[of "[1, 9 / 10, 0]" "[1, 3 / 10, 0]" example_api "\<lambda>t. 0" "[]"
      example_buildings "[example_entry ''b0'' ''A'' 1 ''CRITICAL'' 1 1,
              example_entry ''b1'' ''B'' (3 / 5) ''HIGH'' (9 / 10) (3 / 10)]"]
  have a: "\<forall>i<length [1, 9 / 10, 0 :: real]. ensemble_probs [1, 9 / 10, 0] [1, 3 / 10, 0] ! i
      = ([1, 9 / 10, 0] ! i + [1, 3 / 10, 0] ! i) / (2::real)"
    using th l by blast
  have b: "\<forall>a \<in> set [example_entry ''b0'' ''A'' 1 ''CRITICAL'' 1 1,
                  example_entry ''b1'' ''B'' (3 / 5) ''HIGH'' (9 / 10) (3 / 10)].
         anomaly_probability a = (if_probability a + svm_probability a) / 2"
    using th get_anomalies_example by blast
  have a': "ensemble_probs [1, 9 / 10, 0] [1, 3 / 10, 0] ! 1 = (3 / 5 :: real)"
    using a[rule_format, of 1] by simp
  have c: "anomaly_probability (example_entry ''b1'' ''B'' (3 / 5) ''HIGH'' (9 / 10) (3 / 10))
       = (if_probability (example_entry ''b1'' ''B'' (3 / 5) ''HIGH'' (9 / 10) (3 / 10))
          + svm_probability (example_entry ''b1'' ''B'' (3 / 5) ''HIGH'' (9 / 10) (3 / 10))) / 2"
    using b by (rule bspec) simp
  show ?thesis using l a' c get_anomalies_example by (intro conjI)
qed

section \<open>The engineered anomaly features\<close>

lemma group_sizes_ge_one:
  "x \<in> set (group_sizes keys) \<Longrightarrow> 1 \<le> x"
proof -
  assume "x \<in> set (group_sizes keys)"
  then obtain k where k: "k \<in> set keys" and x: "x = real (count_list keys k)"
    by (auto simp: group_sizes_def)
  have "count_list keys k \<noteq> 0" using k by (simp add: count_list_0_iff)
  then have "0 < count_list keys k" by simp
  then show "1 \<le> x" unfolding x by simp
qed

lemma group_sizes_nonempty:
  assumes "keys \<noteq> []"
  shows "group_sizes keys \<noteq> []"
proof -
  have "set (sort (remdups keys)) = set keys" by simp
  moreover have "set keys \<noteq> {}" using assms by simp
  ultimately have "sort (remdups keys) \<noteq> []" by (metis list.set(1))
  then show ?thesis by (simp add: group_sizes_def)
qed

lemma sum_list_ge_length:
  fixes xs :: "real list"
  assumes "\<forall>x \<in> set xs. 1 \<le> x"
  shows "real (length xs) \<le> sum_list xs"
  using assms by (induction xs) auto

lemma np_mean_group_sizes_pos:
  assumes "keys \<noteq> []"
  shows "0 < np_mean (group_sizes keys) + 1"
proof -
  let ?g = "group_sizes keys"
  have ne: "?g \<noteq> []" using assms by (rule group_sizes_nonempty)
  have "real (length ?g) \<le> sum_list ?g"
    by (rule sum_list_ge_length) (simp add: group_sizes_ge_one)
  moreover have "0 < real (length ?g)" using ne by simp
  ultimately have "0 \<le> np_mean ?g" unfolding np_mean_def by simp
  then show ?thesis by simp
qed

lemma feature_selectors:
  "issue_frequency_variance (building.extend b (anomaly_features.fields v1 v2 v3 v4 v5)) = v1"
  "issue_severity_variance (building.extend b (anomaly_features.fields v1 v2 v3 v4 v5)) = v2"
  "inter_arrival_variance (building.extend b (anomaly_features.fields v1 v2 v3 v4 v5)) = v3"
  "daily_issue_std (building.extend b (anomaly_features.fields v1 v2 v3 v4 v5)) = v4"
  "weekly_issue_coefficient_variation (building.extend b (anomaly_features.fields v1 v2 v3 v4 v5)) = v5"
  "bld_id (building.extend b (anomaly_features.fields v1 v2 v3 v4 v5)) = bld_id b"
  "bld_name (building.extend b (anomaly_features.fields v1 v2 v3 v4 v5)) = bld_name b"
  "bld_numeric (building.extend b (anomaly_features.fields v1 v2 v3 v4 v5)) = bld_numeric b"
  by (cases b; simp add: building.defs anomaly_features.defs)+

lemma anomaly_features_of_empty:
  assumes "issues_of issues_df (bld_id b) = []"
  shows "issue_frequency_variance (anomaly_features_of iso_week issues_df b) = Some 0"
    "issue_severity_variance (anomaly_features_of iso_week issues_df b) = Some 0"
    "inter_arrival_variance (anomaly_features_of iso_week issues_df b) = Some 0"
    "daily_issue_std (anomaly_features_of iso_week issues_df b) = Some 0"
    "weekly_issue_coefficient_variation (anomaly_features_of iso_week issues_df b) = Some 0"
  using assms
  by (simp_all add: anomaly_features_of_def feature_selectors)

lemma anomaly_features_of_nonempty:
  assumes "issues_of issues_df (bld_id b) \<noteq> []"
  shows "issue_frequency_variance (anomaly_features_of iso_week issues_df b) =
           float_div (pd_std (group_sizes (map (\<lambda>i. date_of (created_at i)) (issues_of issues_df (bld_id b)))))
             (np_mean (group_sizes (map (\<lambda>i. date_of (created_at i)) (issues_of issues_df (bld_id b)))) + 1)"
    "issue_severity_variance (anomaly_features_of iso_week issues_df b) =
           float_div (pd_std (map (\<lambda>i. real_of_int (severity i)) (issues_of issues_df (bld_id b))))
             (np_mean (map (\<lambda>i. real_of_int (severity i)) (issues_of issues_df (bld_id b))) + 1)"
  using assms
  by (simp_all add: anomaly_features_of_def Let_def feature_selectors)

lemma float_div_Some: "d \<noteq> 0 \<Longrightarrow> float_div (Some x) d = Some (x / d)"
  by (simp add: float_div_def)

lemma float_div_None: "float_div None d = None"
  by (simp add: float_div_def)

lemma pd_std_Some:
  "2 \<le> length xs \<Longrightarrow>
     pd_std xs = Some (sqrt (sum_list (map (\<lambda>x. (x - np_mean xs)\<^sup>2) xs) / real (length xs - 1)))"
  by (simp add: pd_std_def)

lemma pd_std_None: "length xs < 2 \<Longrightarrow> pd_std xs = None"
  by (simp add: pd_std_def)

lemma example_issues_of:
  "issues_of example_issues ''b1'' =
     [ex_issue ''b1'' 1 0, ex_issue ''b1'' 1 86400000000000, ex_issue ''b1'' 2 172800000000000,
      ex_issue ''b1'' 3 259200000000000, ex_issue ''b1'' 3 262800000000000]"
  by (simp add: issues_of_def)

lemma example_daily:
  "group_sizes (map (\<lambda>i. date_of (created_at i)) (issues_of example_issues ''b1'')) = [1, 1, 1, 2]"
  unfolding example_issues_of by (simp add: group_sizes_def date_of_def ns_per_day_def)

lemma example_sev:
  "map (\<lambda>i. real_of_int (severity i)) (issues_of example_issues ''b1'') = [1, 1, 2, 3, 3]"
  unfolding example_issues_of by simp

lemma sqrt_quarter: "sqrt (1 / 4) = 1 / 2"
  by (simp add: real_sqrt_divide)

lemma example_daily_stats: "np_mean [1, 1, 1, 2] = 5 / 4" "pd_std [1, 1, 1, 2] = Some (1 / 2)"
proof -
  show m: "np_mean [1, 1, 1, 2] = 5 / 4" by (simp add: np_mean_def)
  have v: "sum_list (map (\<lambda>x. (x - 5 / 4)\<^sup>2) [1, 1, 1, 2 :: real]) / real (length [1, 1, 1, 2 :: real] - 1) = 1 / 4"
    by (simp add: power2_eq_square)
  have "pd_std [1, 1, 1, 2] = Some (sqrt (sum_list (map (\<lambda>x. (x - np_mean [1, 1, 1, 2])\<^sup>2) [1, 1, 1, 2])
      / real (length [1, 1, 1, 2 :: real] - 1)))"
    by (rule pd_std_Some) simp
  also have "\<dots> = Some (sqrt (1 / 4))" by (simp only: m v)
  also have "\<dots> = Some (1 / 2)" by (simp only: sqrt_quarter)
  finally show "pd_std [1, 1, 1, 2] = Some (1 / 2)" .
qed

lemma example_sev_stats: "np_mean [1, 1, 2, 3, 3] = 2" "pd_std [1, 1, 2, 3, 3] = Some 1"
proof -
  show m: "np_mean [1, 1, 2, 3, 3] = 2" by (simp add: np_mean_def)
  have v: "sum_list (map (\<lambda>x. (x - 2)\<^sup>2) [1, 1, 2, 3, 3 :: real]) / real (length [1, 1, 2, 3, 3 :: real] - 1) = 1"
    by (simp add: power2_eq_square)
  have "pd_std [1, 1, 2, 3, 3] = Some (sqrt (sum_list (map (\<lambda>x. (x - np_mean [1, 1, 2, 3, 3])\<^sup>2) [1, 1, 2, 3, 3])
      / real (length [1, 1, 2, 3, 3 :: real] - 1)))"
    by (rule pd_std_Some) simp
  also have "\<dots> = Some (sqrt 1)" by (simp only: m v)
  also have "\<dots> = Some 1" by (simp only: real_sqrt_one)
  finally show "pd_std [1, 1, 2, 3, 3] = Some 1" .
qed

text \<open>
  Claim C9 as stated fails: the two features divide the standard deviation by the mean
  plus one, not by the mean. On a building with daily counts 1, 1, 1, 2 and severities
  1, 1, 2, 3, 3 the features are 2/9 and 1/3, where standard deviation over mean would be
  2/5 and 1/2.
\<close>

theorem anomaly_feature_variances_counterexample:
  "issue_frequency_variance (anomaly_features_of (\<lambda>t. 1) example_issues example_building)
      = Some (2 / 9)
   \<and> float_div (pd_std (group_sizes (map (\<lambda>i. date_of (created_at i))
                                          (issues_of example_issues ''b1''))))
               (np_mean (group_sizes (map (\<lambda>i. date_of (created_at i))
                                          (issues_of example_issues ''b1''))))
      = Some (2 / 5)
   \<and> issue_severity_variance (anomaly_features_of (\<lambda>t. 1) example_issues example_building)
      = Some (1 / 3)
   \<and> float_div (pd_std (map (\<lambda>i. real_of_int (severity i)) (issues_of example_issues ''b1'')))
               (np_mean (map (\<lambda>i. real_of_int (severity i)) (issues_of example_issues ''b1'')))
      = Some (1 / 2)"
proof -
  have ne: "issues_of example_issues (bld_id example_building) \<noteq> []"
    by (simp add: example_issues_of)
  have id: "bld_id example_building = ''b1''" by simp
  have a: "issue_frequency_variance (anomaly_features_of (\<lambda>t. 1) example_issues example_building)
      = Some (2 / 9)"
    unfolding anomaly_features_of_nonempty(1)[OF ne] id example_daily example_daily_stats
    by (simp add: float_div_def)
  have b: "issue_severity_variance (anomaly_features_of (\<lambda>t. 1) example_issues example_building)
      = Some (1 / 3)"
    unfolding anomaly_features_of_nonempty(2)[OF ne] id example_sev example_sev_stats
    by (simp add: float_div_def)
  have c: "float_div (pd_std (group_sizes (map (\<lambda>i. date_of (created_at i))
                                          (issues_of example_issues ''b1''))))
               (np_mean (group_sizes (map (\<lambda>i. date_of (created_at i))
                                          (issues_of example_issues ''b1''))))
      = Some (2 / 5)"
    unfolding example_daily example_daily_stats by (simp add: float_div_def)
  have d: "float_div (pd_std (map (\<lambda>i. real_of_int (severity i)) (issues_of example_issues ''b1'')))
               (np_mean (map (\<lambda>i. real_of_int (severity i)) (issues_of example_issues ''b1'')))
      = Some (1 / 2)"
    unfolding example_sev example_sev_stats by (simp add: float_div_def)
  show ?thesis using a b c d by (intro conjI)
qed

text \<open>
  Claim C9, amended. For a building with at least one issue, \<open>issue_frequency_variance\<close> is
  the sample standard deviation of the counts of the days that have an issue, divided by
  their mean plus one, and \<open>issue_severity_variance\<close> is the same statistic of the
  severities; with a single such day, or a single issue, the standard deviation and with
  it the feature is NaN. A building with no issue gets 0 for all five features.
\<close>

theorem anomaly_feature_variances:
  "(let bi = issues_of issues_df (bld_id b);
        f = anomaly_features_of iso_week issues_df b;
        daily = group_sizes (map (\<lambda>i. date_of (created_at i)) bi);
        sev = map (\<lambda>i. real_of_int (severity i)) bi
    in (bi = [] \<longrightarrow>
          issue_frequency_variance f = Some 0 \<and> issue_severity_variance f = Some 0
          \<and> inter_arrival_variance f = Some 0 \<and> daily_issue_std f = Some 0
          \<and> weekly_issue_coefficient_variation f = Some 0)
     \<and> (bi \<noteq> [] \<and> 2 \<le> length daily \<longrightarrow>
          issue_frequency_variance f =
            Some (sqrt (sum_list (map (\<lambda>x. (x - np_mean daily)\<^sup>2) daily) / real (length daily - 1))
                  / (np_mean daily + 1)))
     \<and> (bi \<noteq> [] \<and> length daily < 2 \<longrightarrow> issue_frequency_variance f = None)
     \<and> (2 \<le> length bi \<and> np_mean sev + 1 \<noteq> 0 \<longrightarrow>
          issue_severity_variance f =
            Some (sqrt (sum_list (map (\<lambda>x. (x - np_mean sev)\<^sup>2) sev) / real (length sev - 1))
                  / (np_mean sev + 1)))
     \<and> (length bi = 1 \<longrightarrow> issue_severity_variance f = None))"
proof -
  let ?bi = "issues_of issues_df (bld_id b)"
  let ?f = "anomaly_features_of iso_week issues_df b"
  let ?daily = "group_sizes (map (\<lambda>i. date_of (created_at i)) ?bi)"
  let ?sev = "map (\<lambda>i. real_of_int (severity i)) ?bi"
  have a: "?bi = [] \<longrightarrow>
          issue_frequency_variance ?f = Some 0 \<and> issue_severity_variance ?f = Some 0
          \<and> inter_arrival_variance ?f = Some 0 \<and> daily_issue_std ?f = Some 0
          \<and> weekly_issue_coefficient_variation ?f = Some 0"
    using anomaly_features_of_empty[of issues_df b iso_week] by blast
  have b: "?bi \<noteq> [] \<and> 2 \<le> length ?daily \<longrightarrow>
          issue_frequency_variance ?f =
            Some (sqrt (sum_list (map (\<lambda>x. (x - np_mean ?daily)\<^sup>2) ?daily) / real (length ?daily - 1))
                  / (np_mean ?daily + 1))"
  proof
    assume h: "?bi \<noteq> [] \<and> 2 \<le> length ?daily"
    then have "map (\<lambda>i. date_of (created_at i)) ?bi \<noteq> []" by simp
    from np_mean_group_sizes_pos[OF this] have nz: "np_mean ?daily + 1 \<noteq> 0" by simp
    show "issue_frequency_variance ?f =
            Some (sqrt (sum_list (map (\<lambda>x. (x - np_mean ?daily)\<^sup>2) ?daily) / real (length ?daily - 1))
                  / (np_mean ?daily + 1))"
      unfolding anomaly_features_of_nonempty(1)[OF conjunct1[OF h]] pd_std_Some[OF conjunct2[OF h]]
        float_div_Some[OF nz] ..
  qed
  have c: "?bi \<noteq> [] \<and> length ?daily < 2 \<longrightarrow> issue_frequency_variance ?f = None"
  proof
    assume h: "?bi \<noteq> [] \<and> length ?daily < 2"
    show "issue_frequency_variance ?f = None"
      unfolding anomaly_features_of_nonempty(1)[OF conjunct1[OF h]] pd_std_None[OF conjunct2[OF h]]
        float_div_None ..
  qed
  have d: "2 \<le> length ?bi \<and> np_mean ?sev + 1 \<noteq> 0 \<longrightarrow>
          issue_severity_variance ?f =
            Some (sqrt (sum_list (map (\<lambda>x. (x - np_mean ?sev)\<^sup>2) ?sev) / real (length ?sev - 1))
                  / (np_mean ?sev + 1))"
  proof
    assume h: "2 \<le> length ?bi \<and> np_mean ?sev + 1 \<noteq> 0"
    then have ne: "?bi \<noteq> []" by auto
    show "issue_severity_variance ?f =
            Some (sqrt (sum_list (map (\<lambda>x. (x - np_mean ?sev)\<^sup>2) ?sev) / real (length ?sev - 1))
                  / (np_mean ?sev + 1))"
    proof -
      have l: "2 \<le> length ?sev" using h by simp
      show ?thesis
        unfolding anomaly_features_of_nonempty(2)[OF ne] pd_std_Some[OF l]
          float_div_Some[OF conjunct2[OF h]] ..
    qed
  qed
  have e: "length ?bi = 1 \<longrightarrow> issue_severity_variance ?f = None"
  proof
    assume h: "length ?bi = 1"
    then have ne: "?bi \<noteq> []" by auto
    have l: "length ?sev < 2" using h by simp
    show "issue_severity_variance ?f = None"
      unfolding anomaly_features_of_nonempty(2)[OF ne] pd_std_None[OF l] float_div_None ..
  qed
  show ?thesis unfolding Let_def using a b c d e by blast
qed

theorem anomaly_feature_variances_witness:
  "issues_of example_issues (bld_id example_building) \<noteq> []
   \<and> 2 \<le> length (group_sizes (map (\<lambda>i. date_of (created_at i))
                                   (issues_of example_issues (bld_id example_building))))
   \<and> issue_frequency_variance (anomaly_features_of (\<lambda>t. 1) example_issues example_building)
        = Some (sqrt (sum_list (map (\<lambda>x. (x - np_mean [1, 1, 1, 2])\<^sup>2) [1, 1, 1, 2])
                       / real (length [1, 1, 1, 2 :: real] - 1))
                / (np_mean [1, 1, 1, 2] + 1))
   \<and> issue_severity_variance (anomaly_features_of (\<lambda>t. 1) example_issues example_building)
        = Some (sqrt (sum_list (map (\<lambda>x. (x - np_mean [1, 1, 2, 3, 3])\<^sup>2) [1, 1, 2, 3, 3])
                       / real (length [1, 1, 2, 3, 3 :: real] - 1))
                / (np_mean [1, 1, 2, 3, 3] + 1))"
proof -
  have id: "bld_id example_building = ''b1''" by simp
  have ne: "issues_of example_issues (bld_id example_building) \<noteq> []"
    by (simp add: example_issues_of)
  have l: "2 \<le> length (group_sizes (map (\<lambda>i. date_of (created_at i))
                                   (issues_of example_issues (bld_id example_building))))"
    unfolding id example_daily by simp
  have l2: "2 \<le> length (issues_of example_issues (bld_id example_building))"
    unfolding id example_issues_of by simp
  have nz: "np_mean (map (\<lambda>i. real_of_int (severity i))
                 (issues_of example_issues (bld_id example_building))) + 1 \<noteq> 0"
    unfolding id example_sev example_sev_stats by simp
  note th = anomaly_feature_variances[of example_issues example_building "\<lambda>t. 1",
      unfolded Let_def]
  have a: "issue_frequency_variance (anomaly_features_of (\<lambda>t. 1) example_issues example_building)
        = Some (sqrt (sum_list (map (\<lambda>x. (x - np_mean [1, 1, 1, 2])\<^sup>2) [1, 1, 1, 2])
                       / real (length [1, 1, 1, 2 :: real] - 1))
                / (np_mean [1, 1, 1, 2] + 1))"
    using th ne l unfolding id example_daily by blast
  have b: "issue_severity_variance (anomaly_features_of (\<lambda>t. 1) example_issues example_building)
        = Some (sqrt (sum_list (map (\<lambda>x. (x - np_mean [1, 1, 2, 3, 3])\<^sup>2) [1, 1, 2, 3, 3])
                       / real (length [1, 1, 2, 3, 3 :: real] - 1))
                / (np_mean [1, 1, 2, 3, 3] + 1))"
    using th l2 nz unfolding id example_sev by blast
  show ?thesis using ne l a b by (intro conjI)
qed

section \<open>Temporal clustering\<close>


























section \<open>Frequency spikes\<close>































end
